theory Spec2Isabelle
  imports Complex_Main "HOL-Library.AList" "HOL-Library.Multiset" "HOL-Library.Word"
begin

section \<open>Word Duel: strings and letter records\<close>

text \<open>
  The embedding follows \<^verbatim>\<open>src/App.tsx\<close>. A JavaScript string is the list of its UTF-16
  code units; \<^verbatim>\<open>length\<close>, indexing, \<^verbatim>\<open>split('')\<close>, \<^verbatim>\<open>slice\<close>, \<^verbatim>\<open>includes\<close> and \<^verbatim>\<open>===\<close> work
  on code units, and \<^verbatim>\<open>for (const ch of s)\<close> walks code points. \<open>js\<close> writes a string
  literal: a HOL character is the code unit of the same number (Latin-1).
\<close>

type_synonym CodeUnit = "16 word"

type_synonym jsstring = "CodeUnit list"

definition js :: "string \<Rightarrow> jsstring" where
  "js s = map of_char s"

text \<open>
  \<^verbatim>\<open>String.prototype.trim\<close> strips the white space and line terminator code points of
  ECMAScript from both ends: TAB, LF, VT, FF, CR, SPACE, NO-BREAK SPACE, U+1680,
  U+2000 to U+200A, U+2028, U+2029, U+202F, U+205F, U+3000 and U+FEFF.
\<close>

definition isWhiteSpace :: "CodeUnit \<Rightarrow> bool" where
  "isWhiteSpace u =
     (u \<in> set [0x09, 0x0A, 0x0B, 0x0C, 0x0D, 0x20, 0xA0, 0x1680, 0x2028, 0x2029, 0x202F,
               0x205F, 0x3000, 0xFEFF]
      \<or> (0x2000 \<le> u \<and> u \<le> 0x200A))"

definition trim :: "jsstring \<Rightarrow> jsstring" where
  "trim s = rev (dropWhile isWhiteSpace (rev (dropWhile isWhiteSpace s)))"

text \<open>
  \<^verbatim>\<open>toUpperCase\<close> and \<^verbatim>\<open>toLowerCase\<close> are the locale-independent case conversions of
  Unicode. On Latin-1 text they work character by character and are written out: upper-casing
  maps \<open>a\<close> to \<open>z\<close> and U+00E0 to U+00FE (but not the division sign U+00F7) 32 down, the
  sharp s U+00DF to \<open>SS\<close>, the micro sign U+00B5 to U+039C and U+00FF to U+0178;
  lower-casing maps \<open>A\<close> to \<open>Z\<close> and U+00C0 to U+00DE (but not the multiplication sign
  U+00D7) 32 up. For text with a code unit beyond Latin-1 the conversion is that of the
  platform's Unicode tables, which the model takes as a parameter.
\<close>

record Unicode =
  upperTable :: "jsstring \<Rightarrow> jsstring"
  lowerTable :: "jsstring \<Rightarrow> jsstring"

definition latin1 :: "jsstring \<Rightarrow> bool" where
  "latin1 s = list_all (\<lambda>u. u \<le> 0xFF) s"

definition toUpperUnit :: "CodeUnit \<Rightarrow> jsstring" where
  "toUpperUnit u =
     (if 0x61 \<le> u \<and> u \<le> 0x7A then [u - 0x20]
      else if u = 0xB5 then [0x39C]
      else if u = 0xDF then [0x53, 0x53]
      else if 0xE0 \<le> u \<and> u \<le> 0xFE \<and> u \<noteq> 0xF7 then [u - 0x20]
      else if u = 0xFF then [0x178]
      else [u])"

definition toLowerUnit :: "CodeUnit \<Rightarrow> CodeUnit" where
  "toLowerUnit u =
     (if 0x41 \<le> u \<and> u \<le> 0x5A then u + 0x20
      else if 0xC0 \<le> u \<and> u \<le> 0xDE \<and> u \<noteq> 0xD7 then u + 0x20
      else u)"

definition toUpperCase :: "Unicode \<Rightarrow> jsstring \<Rightarrow> jsstring" where
  "toUpperCase uc s = (if latin1 s then concat (map toUpperUnit s) else upperTable uc s)"

definition toLowerCase :: "Unicode \<Rightarrow> jsstring \<Rightarrow> jsstring" where
  "toLowerCase uc s = (if latin1 s then map toLowerUnit s else lowerTable uc s)"

text \<open>
  The code points of a string, each as the string of its one or two code units: a lead
  surrogate followed by a trail surrogate is one code point.
\<close>

fun codePoints :: "jsstring \<Rightarrow> jsstring list" where
  "codePoints [] = []"
| "codePoints [u] = [[u]]"
| "codePoints (u # v # rest) =
     (if 0xD800 \<le> u \<and> u \<le> 0xDBFF \<and> 0xDC00 \<le> v \<and> v \<le> 0xDFFF
      then [u, v] # codePoints rest
      else [u] # codePoints (v # rest))"

text \<open>
  A JavaScript object used as a dictionary is an association list in insertion order; a
  write to a key replaces the entry in place or appends it, which is \<open>AList.update\<close>.
  The keys of a \<^verbatim>\<open>Record<Letter, number>\<close> are single characters; \<open>keyString\<close> is such a
  key as the string it is. Numbers that the code only ever uses as integers are \<open>int\<close>.
\<close>

type_synonym Letter = char

type_synonym LetterRecord = "(Letter \<times> int) list"

definition keyString :: "Letter \<Rightarrow> jsstring" where
  "keyString l = js [l]"

text \<open>\<^verbatim>\<open>record[key] || 0\<close>: a missing key reads as 0.\<close>

definition countOr0 :: "('k \<times> int) list \<Rightarrow> 'k \<Rightarrow> int" where
  "countOr0 record key = (case map_of record key of Some n \<Rightarrow> n | None \<Rightarrow> 0)"

definition SCORING_MODE :: string where
  "SCORING_MODE = ''HIGH_WINS''"

definition WRONG_GUESS_PENALTY :: int where
  "WRONG_GUESS_PENALTY = 2"

definition MIN_WORD_LENGTH :: nat where
  "MIN_WORD_LENGTH = 3"

definition SCRABBLE_COUNTS :: LetterRecord where
  "SCRABBLE_COUNTS =
    [(CHR ''A'', 9), (CHR ''B'', 2), (CHR ''C'', 2), (CHR ''D'', 4), (CHR ''E'', 12),
     (CHR ''F'', 2), (CHR ''G'', 3), (CHR ''H'', 2), (CHR ''I'', 9), (CHR ''J'', 1),
     (CHR ''K'', 1), (CHR ''L'', 4), (CHR ''M'', 2), (CHR ''N'', 6), (CHR ''O'', 8),
     (CHR ''P'', 2), (CHR ''Q'', 1), (CHR ''R'', 6), (CHR ''S'', 4), (CHR ''T'', 6),
     (CHR ''U'', 4), (CHR ''V'', 2), (CHR ''W'', 2), (CHR ''X'', 1), (CHR ''Y'', 2),
     (CHR ''Z'', 1)]"

definition VOWELS :: "Letter list" where
  "VOWELS = ''AEIOU''"

subsection \<open>countLetters, canBuild, flattenLetters\<close>

text \<open>
  \<^verbatim>\<open>for (const ch of word.toUpperCase()) counts[ch] = (counts[ch] || 0) + 1\<close>.
  The keys of the result are the code points of the upper-cased word.
\<close>

definition countLetters :: "Unicode \<Rightarrow> jsstring \<Rightarrow> (jsstring \<times> int) list" where
  "countLetters uc word =
     fold (\<lambda>letter counts. AList.update letter (countOr0 counts letter + 1) counts)
          (codePoints (toUpperCase uc word)) []"

text \<open>The available letters under their keys as strings, as \<^verbatim>\<open>available[letter]\<close> reads them.\<close>

definition keyStrings :: "LetterRecord \<Rightarrow> (jsstring \<times> int) list" where
  "keyStrings record = map (\<lambda>(l, n). (keyString l, n)) record"

text \<open>
  \<^verbatim>\<open>for (const letter in needed) if ((available[letter] || 0) < needed[letter]) return false;\<close>
  The loop returns at the first key that fails, so the result is that no key fails.
\<close>

fun canBuildLoop :: "(jsstring \<times> int) list \<Rightarrow> LetterRecord \<Rightarrow> bool" where
  "canBuildLoop [] available = True"
| "canBuildLoop ((letter, n) # needed) available =
     (if countOr0 (keyStrings available) letter < n then False
      else canBuildLoop needed available)"

definition canBuild :: "Unicode \<Rightarrow> jsstring \<Rightarrow> LetterRecord \<Rightarrow> bool" where
  "canBuild uc word available = canBuildLoop (countLetters uc word) available"

text \<open>
  \<^verbatim>\<open>for (const letter in record) for (let i = 0; i < record[letter]; i++) result.push(letter)\<close>
  A count that is zero or negative pushes nothing.
\<close>

definition flattenLetters :: "LetterRecord \<Rightarrow> Letter list" where
  "flattenLetters record = concat (map (\<lambda>(letter, n). replicate (nat n) letter) record)"

subsection \<open>The dictionary and word validation\<close>

text \<open>
  \<^verbatim>\<open>DictionaryLoader.words\<close> is \<^verbatim>\<open>null\<close> until the word list has been loaded; the loader is
  outside the game logic and enters it as a parameter.
\<close>

type_synonym Dictionary = "jsstring set option"

definition isReady :: "Dictionary \<Rightarrow> bool" where
  "isReady words = (words \<noteq> None)"

definition isValidWord :: "Unicode \<Rightarrow> Dictionary \<Rightarrow> jsstring \<Rightarrow> bool" where
  "isValidWord uc words word =
     (case words of None \<Rightarrow> False | Some ws \<Rightarrow> trim (toLowerCase uc word) \<in> ws)"

text \<open>
  The messages shown to the user, as values. \<open>TooShort\<close> is
  \<^verbatim>\<open>Word must be at least 3 letters\<close>, \<open>CannotBuild\<close> is
  \<^verbatim>\<open>Cannot build this word with available letters\<close>, \<open>NotInDictionary\<close> is
  \<^verbatim>\<open>Word not in dictionary\<close>, \<open>DictionaryNotReady\<close> is \<^verbatim>\<open>Dictionary still loading...\<close>,
  \<open>MissingHintInput\<close> is \<^verbatim>\<open>Please enter a letter\<close>, \<open>EmptyGuess\<close> is
  \<^verbatim>\<open>Enter a word to guess\<close> and \<open>WrongGuess w\<close> is the notice after a wrong guess \<open>w\<close>.
\<close>

datatype error =
    DictionaryNotReady
  | TooShort
  | CannotBuild
  | NotInDictionary
  | MissingHintInput
  | EmptyGuess
  | WrongGuess jsstring

definition validateWord :: "Unicode \<Rightarrow> Dictionary \<Rightarrow> jsstring \<Rightarrow> LetterRecord \<Rightarrow> error option" where
  "validateWord uc words word letters =
     (if length word < MIN_WORD_LENGTH then Some TooShort
      else if \<not> canBuild uc word letters then Some CannotBuild
      else if \<not> isValidWord uc words word then Some NotInDictionary
      else None)"

section \<open>The letter pool generator\<close>

text \<open>
  \<^verbatim>\<open>randomFloat\<close> reads one 32-bit value \<open>arr[0]\<close> from \<^verbatim>\<open>crypto.getRandomValues\<close> and
  returns \<^verbatim>\<open>arr[0] / (0xFFFFFFFF + 1)\<close>. Every product and difference the code forms
  from it (with totals and weights below 100, and list lengths) is exact in double
  precision, so the value is modelled as a rational. The \<^verbatim>\<open>Math.random\<close> branch, taken
  only where \<^verbatim>\<open>crypto\<close> is missing, is not modelled.
\<close>

definition randomFloat :: "32 word \<Rightarrow> rat" where
  "randomFloat arr0 = of_nat (unat arr0) / (0xFFFFFFFF + 1)"

text \<open>
  The inner loop of \<^verbatim>\<open>drawLetters\<close>, over the pool's entries in key order:
  \<^verbatim>\<open>rand -= weights[j]; if (rand <= 0) { ... letters[j] ...; break; }\<close>.
  \<open>None\<close> is the loop running off the end without a draw.
\<close>

fun pickLetter :: "rat \<Rightarrow> LetterRecord \<Rightarrow> Letter option" where
  "pickLetter rand [] = None"
| "pickLetter rand ((letter, weight) # rest) =
     (if rand - of_int weight \<le> 0 then Some letter
      else pickLetter (rand - of_int weight) rest)"

text \<open>
  The outer loop of \<^verbatim>\<open>drawLetters\<close>. The random source is a sequence \<open>rnd\<close> of 32-bit
  values and \<open>k\<close> counts the calls of \<^verbatim>\<open>randomFloat\<close> made so far; the loop returns the
  result together with the new count. The first argument is the number of iterations
  left.
\<close>

fun drawLoop ::
  "nat \<Rightarrow> (nat \<Rightarrow> 32 word) \<Rightarrow> LetterRecord \<Rightarrow> LetterRecord \<Rightarrow> nat \<Rightarrow> LetterRecord \<times> nat" where
  "drawLoop 0 rnd pool result k = (result, k)"
| "drawLoop (Suc m) rnd pool result k =
     (let total = sum_list (map snd pool) in
      if total = 0 then (result, k)
      else
        (case pickLetter (randomFloat (rnd k) * of_int total) pool of
           None \<Rightarrow> drawLoop m rnd pool result (Suc k)
         | Some letter \<Rightarrow>
             drawLoop m rnd
               (AList.update letter (countOr0 pool letter - 1) pool)
               (AList.update letter (countOr0 result letter + 1) result)
               (Suc k)))"

definition drawLetters ::
  "(nat \<Rightarrow> 32 word) \<Rightarrow> nat \<Rightarrow> LetterRecord \<Rightarrow> nat \<Rightarrow> LetterRecord \<times> nat" where
  "drawLetters rnd k poolCounts n = drawLoop n rnd poolCounts [] k"

record Draw =
  vowels :: LetterRecord
  consonants :: LetterRecord
  combined :: LetterRecord

definition vowelPool :: LetterRecord where
  "vowelPool =
     fold (\<lambda>(l, n) pool. if l \<in> set VOWELS then AList.update l n pool else pool)
          SCRABBLE_COUNTS []"

definition consonantPool :: LetterRecord where
  "consonantPool =
     fold (\<lambda>(l, n) pool. if l \<in> set VOWELS then pool else AList.update l n pool)
          SCRABBLE_COUNTS []"

definition combine :: "LetterRecord \<Rightarrow> LetterRecord \<Rightarrow> LetterRecord" where
  "combine vs cs = fold (\<lambda>(l, n) comb. AList.update l (countOr0 comb l + n) comb) cs vs"

definition drawVowelsAndConsonants :: "(nat \<Rightarrow> 32 word) \<Rightarrow> Draw" where
  "drawVowelsAndConsonants rnd =
     (let (vs, k) = drawLetters rnd 0 vowelPool 4;
          (cs, k') = drawLetters rnd k consonantPool 7
      in \<lparr>vowels = vs, consonants = cs, combined = combine vs cs\<rparr>)"

section \<open>Hint cards\<close>

text \<open>
  \<^verbatim>\<open>contains\<close> and \<^verbatim>\<open>pattern\<close> are objects read only by key, so they are maps. An
  optional field that is absent is \<open>None\<close>. The record field \<^verbatim>\<open>length\<close> is \<open>length_r\<close>
  and the card field \<^verbatim>\<open>id\<close> is \<open>id_c\<close>, since HOL has constants of those names.
\<close>

record RevealedInfo =
  length_r :: "nat option"
  firstLetter :: "jsstring option"
  lastLetter :: "jsstring option"
  vowelCount :: "nat option"
  contains :: "(jsstring \<rightharpoonup> bool) option"
  knownLetters :: "jsstring list option"
  pattern :: "(nat \<rightharpoonup> jsstring) option"

definition emptyRevealed :: RevealedInfo where
  "emptyRevealed =
     \<lparr>length_r = None, firstLetter = None, lastLetter = None, vowelCount = None,
      contains = None, knownLetters = None, pattern = None\<rparr>"

text \<open>Reading a character of an empty word and calling a method on it throws.\<close>

datatype exn = TypeError

record HintLogEntry =
  player :: string
  card :: string
  cost :: int

record WrongGuess =
  player :: string
  word :: jsstring
  penalty :: int

text \<open>
  The effect of a card takes, besides the word, the revealed record and the input, the
  Unicode tables of the platform and the one random value it may read.
\<close>

record HintCard =
  id_c :: string
  name :: string
  description :: string
  cost :: int
  requiresInput :: bool
  effect :: "Unicode \<Rightarrow> jsstring \<Rightarrow> RevealedInfo \<Rightarrow> jsstring \<Rightarrow> 32 word \<Rightarrow> exn + RevealedInfo"

text \<open>\<^verbatim>\<open>Array.from(new Set(xs))\<close>: the elements in the order of their first occurrence.\<close>

definition uniqueOf :: "'a list \<Rightarrow> 'a list" where
  "uniqueOf xs = fold (\<lambda>x seen. if x \<in> set seen then seen else seen @ [x]) xs []"

text \<open>\<^verbatim>\<open>Math.floor(randomFloat() * n)\<close>\<close>

definition randomIndex :: "32 word \<Rightarrow> nat \<Rightarrow> nat" where
  "randomIndex arr0 n = nat \<lfloor>randomFloat arr0 * of_nat n\<rfloor>"

text \<open>\<^verbatim>\<open>s.includes(t)\<close>: \<open>t\<close> occurs in \<open>s\<close> as a contiguous substring.\<close>

definition includesStr :: "jsstring \<Rightarrow> jsstring \<Rightarrow> bool" where
  "includesStr s t = (\<exists>i \<in> set [0 ..< Suc (length s)]. take (length t) (drop i s) = t)"

text \<open>\<^verbatim>\<open>{ ...obj }\<close> of an object that may be absent.\<close>

definition spread :: "('k \<rightharpoonup> 'v) option \<Rightarrow> ('k \<rightharpoonup> 'v)" where
  "spread obj = (case obj of None \<Rightarrow> Map.empty | Some m \<Rightarrow> m)"

definition lastLetterEffect ::
  "Unicode \<Rightarrow> jsstring \<Rightarrow> RevealedInfo \<Rightarrow> jsstring \<Rightarrow> 32 word \<Rightarrow> exn + RevealedInfo" where
  "lastLetterEffect uc w revealed input arr0 =
     (if w = [] then Inl TypeError
      else Inr (revealed\<lparr>lastLetter := Some (toUpperCase uc [last w])\<rparr>))"

definition wordLengthEffect ::
  "Unicode \<Rightarrow> jsstring \<Rightarrow> RevealedInfo \<Rightarrow> jsstring \<Rightarrow> 32 word \<Rightarrow> exn + RevealedInfo" where
  "wordLengthEffect uc w revealed input arr0 = Inr (revealed\<lparr>length_r := Some (length w)\<rparr>)"

definition vowelCountEffect ::
  "Unicode \<Rightarrow> jsstring \<Rightarrow> RevealedInfo \<Rightarrow> jsstring \<Rightarrow> 32 word \<Rightarrow> exn + RevealedInfo" where
  "vowelCountEffect uc w revealed input arr0 =
     (let count = length (filter (\<lambda>c. toUpperCase uc [c] \<in> set (map keyString VOWELS)) w)
      in Inr (revealed\<lparr>vowelCount := Some count\<rparr>))"

definition firstLetterEffect ::
  "Unicode \<Rightarrow> jsstring \<Rightarrow> RevealedInfo \<Rightarrow> jsstring \<Rightarrow> 32 word \<Rightarrow> exn + RevealedInfo" where
  "firstLetterEffect uc w revealed input arr0 =
     (case w of [] \<Rightarrow> Inl TypeError
      | c # _ \<Rightarrow> Inr (revealed\<lparr>firstLetter := Some (toUpperCase uc [c])\<rparr>))"

definition containsLetterEffect ::
  "Unicode \<Rightarrow> jsstring \<Rightarrow> RevealedInfo \<Rightarrow> jsstring \<Rightarrow> 32 word \<Rightarrow> exn + RevealedInfo" where
  "containsLetterEffect uc w revealed input arr0 =
     (if input = [] then Inr revealed
      else
        (let letter = toUpperCase uc input;
             found = includesStr (toUpperCase uc w) letter
         in Inr (revealed\<lparr>contains := Some ((spread (contains revealed))(letter \<mapsto> found))\<rparr>)))"

definition randomLetterEffect ::
  "Unicode \<Rightarrow> jsstring \<Rightarrow> RevealedInfo \<Rightarrow> jsstring \<Rightarrow> 32 word \<Rightarrow> exn + RevealedInfo" where
  "randomLetterEffect uc w revealed input arr0 =
     (let letters = map (\<lambda>c. toUpperCase uc [c]) w;
          unique = uniqueOf letters;
          existing = (case knownLetters revealed of None \<Rightarrow> [] | Some ks \<Rightarrow> ks);
          available = filter (\<lambda>l. l \<notin> set existing) unique
      in if length available = 0 then Inr revealed
         else
           (let randomLetter = available ! randomIndex arr0 (length available)
            in Inr (revealed\<lparr>knownLetters := Some (existing @ [randomLetter])\<rparr>)))"

text \<open>
  \<^verbatim>\<open>!pattern[i]\<close> holds of a position that has no entry or whose entry is the empty
  string.
\<close>

definition patternPeekEffect ::
  "Unicode \<Rightarrow> jsstring \<Rightarrow> RevealedInfo \<Rightarrow> jsstring \<Rightarrow> 32 word \<Rightarrow> exn + RevealedInfo" where
  "patternPeekEffect uc w revealed input arr0 =
     (let pat = spread (pattern revealed);
          available = filter (\<lambda>i. case pat i of None \<Rightarrow> True | Some l \<Rightarrow> l = [])
                        [0 ..< length w]
      in if length available = 0 then Inr revealed
         else
           (let idx = available ! randomIndex arr0 (length available)
            in Inr (revealed\<lparr>pattern := Some (pat(idx \<mapsto> toUpperCase uc [w ! idx]))\<rparr>)))"

definition doubleTroubleEffect ::
  "Unicode \<Rightarrow> jsstring \<Rightarrow> RevealedInfo \<Rightarrow> jsstring \<Rightarrow> 32 word \<Rightarrow> exn + RevealedInfo" where
  "doubleTroubleEffect uc w revealed input arr0 =
     (let letters = toLowerCase uc w;
          hasDuplicates = (length (uniqueOf letters) < length letters)
      in Inr (revealed\<lparr>contains :=
                Some ((spread (contains revealed))(js ''_DUPLICATES_'' \<mapsto> hasDuplicates))\<rparr>))"

definition HINT_CARDS :: "HintCard list" where
  "HINT_CARDS =
    [\<lparr>id_c = ''last-letter'', name = ''Last Letter'',
      description = ''Reveal the final letter'',
      cost = 1, requiresInput = False, effect = lastLetterEffect\<rparr>,
     \<lparr>id_c = ''word-length'', name = ''Word Length'',
      description = ''Reveal the length of the word'',
      cost = 3, requiresInput = False, effect = wordLengthEffect\<rparr>,
     \<lparr>id_c = ''vowel-count'', name = ''Vowel Count'',
      description = ''Reveal how many vowels'',
      cost = 2, requiresInput = False, effect = vowelCountEffect\<rparr>,
     \<lparr>id_c = ''first-letter'', name = ''First Letter'',
      description = ''Reveal the first letter'',
      cost = 3, requiresInput = False, effect = firstLetterEffect\<rparr>,
     \<lparr>id_c = ''contains-letter'', name = ''Contains Letter?'',
      description = ''Check if word contains a specific letter'',
      cost = 1, requiresInput = True, effect = containsLetterEffect\<rparr>,
     \<lparr>id_c = ''random-letter'', name = ''Random Letter'',
      description = ''Reveal one random letter (position hidden)'',
      cost = 3, requiresInput = False, effect = randomLetterEffect\<rparr>,
     \<lparr>id_c = ''pattern-peek'', name = ''Pattern Peek'',
      description = ''Reveal one letter at its position'',
      cost = 4, requiresInput = False, effect = patternPeekEffect\<rparr>,
     \<lparr>id_c = ''double-trouble'', name = ''Double Trouble'',
      description = ''Are there any repeated letters?'',
      cost = 2, requiresInput = False, effect = doubleTroubleEffect\<rparr>]"

section \<open>Game state\<close>

record PlayerSecret =
  letters :: LetterRecord
  word :: jsstring

record PlayerPublic =
  score :: int
  guessSolved :: bool
  revealed :: RevealedInfo

record Player =
  secret :: "PlayerSecret option"
  "public" :: PlayerPublic

record Swap =
  p1Gets :: LetterRecord
  p2Gets :: LetterRecord

datatype Phase =
    START
  | SETUP_P1
  | SETUP_P2
  | PASS_TO_GUESS_P1
  | GUESS_P1
  | PASS_TO_GUESS_P2
  | GUESS_P2
  | ENDGAME

record GameState =
  mode :: string
  minWordLen :: nat
  phase :: Phase
  p1 :: Player
  p2 :: Player
  swap :: "Swap option"
  dictionaryReady :: bool
  hintLog :: "HintLogEntry list"
  wrongGuesses :: "WrongGuess list"

text \<open>
  The component state of \<^verbatim>\<open>WordDuel\<close>: the game state and the input fields the handlers
  read. \<open>error = None\<close> is the empty message. The flags \<^verbatim>\<open>dictLoading\<close> and
  \<^verbatim>\<open>hideLetters\<close> only steer the display and are left out.
\<close>

record App =
  gameState :: GameState
  setupWord :: jsstring
  guessWord :: jsstring
  selectedCard :: "HintCard option"
  cardInput :: jsstring
  error :: "error option"

definition freshPublic :: PlayerPublic where
  "freshPublic = \<lparr>score = 0, guessSolved = False, revealed = emptyRevealed\<rparr>"

definition initialGameState :: "bool \<Rightarrow> GameState" where
  "initialGameState ready =
     \<lparr>mode = SCORING_MODE, minWordLen = MIN_WORD_LENGTH, phase = START,
      p1 = \<lparr>secret = None, public = freshPublic\<rparr>,
      p2 = \<lparr>secret = None, public = freshPublic\<rparr>,
      swap = None, dictionaryReady = ready, hintLog = [], wrongGuesses = []\<rparr>"

definition initialApp :: App where
  "initialApp =
     \<lparr>gameState = initialGameState False, setupWord = [], guessWord = [],
      selectedCard = None, cardInput = [], error = None\<rparr>"

section \<open>Transitions\<close>

text \<open>
  Each handler maps the component state to the next one. A handler reads the state it was
  rendered with and passes React an updater; one action is processed at a time, so the
  updater's \<^verbatim>\<open>prev\<close> is that same state. A handler that throws leaves no new state: the
  result is \<open>Inl\<close>.
\<close>

definition dictionaryLoaded :: "App \<Rightarrow> App" where
  "dictionaryLoaded a = a\<lparr>gameState := (gameState a)\<lparr>dictionaryReady := True\<rparr>\<rparr>"

definition startGame :: "(nat \<Rightarrow> 32 word) \<Rightarrow> App \<Rightarrow> App" where
  "startGame rnd a =
     (if \<not> dictionaryReady (gameState a) then a\<lparr>error := Some DictionaryNotReady\<rparr>
      else
        a\<lparr>gameState := (gameState a)
             \<lparr>phase := SETUP_P1,
              p1 := \<lparr>secret = Some \<lparr>letters = combined (drawVowelsAndConsonants rnd), word = []\<rparr>,
                     public = freshPublic\<rparr>\<rparr>\<rparr>)"

definition confirmSetupWord ::
  "Unicode \<Rightarrow> Dictionary \<Rightarrow> (nat \<Rightarrow> 32 word) \<Rightarrow> App \<Rightarrow> exn + App" where
  "confirmSetupWord uc words rnd a =
     (let g = gameState a;
          player = (if phase g = SETUP_P1 then p1 g else p2 g)
      in case secret player of
           None \<Rightarrow> Inr a
         | Some sec \<Rightarrow>
             (case validateWord uc words (setupWord a) (letters sec) of
                Some validationError \<Rightarrow> Inr (a\<lparr>error := Some validationError\<rparr>)
              | None \<Rightarrow>
                  if phase g = SETUP_P1 then
                    Inr (a\<lparr>gameState := g
                          \<lparr>phase := SETUP_P2,
                           p1 := (p1 g)\<lparr>secret := Some (sec\<lparr>word := toLowerCase uc (setupWord a)\<rparr>)\<rparr>,
                           p2 := \<lparr>secret = Some \<lparr>letters = combined (drawVowelsAndConsonants rnd),
                                                 word = []\<rparr>,
                                  public = freshPublic\<rparr>\<rparr>,
                         setupWord := [], error := None\<rparr>)
                  else
                    (case secret (p1 g) of
                       None \<Rightarrow> Inl TypeError
                     | Some sec1 \<Rightarrow>
                         Inr (a\<lparr>gameState := g
                               \<lparr>phase := PASS_TO_GUESS_P1,
                                p2 := (p2 g)\<lparr>secret := Some (sec\<lparr>word := toLowerCase uc (setupWord a)\<rparr>)\<rparr>,
                                swap := Some \<lparr>p1Gets = letters sec, p2Gets = letters sec1\<rparr>\<rparr>,
                              setupWord := [], error := None\<rparr>))))"

definition proceedToGuess :: "App \<Rightarrow> App" where
  "proceedToGuess a =
     (if phase (gameState a) = PASS_TO_GUESS_P1
        then a\<lparr>gameState := (gameState a)\<lparr>phase := GUESS_P1\<rparr>\<rparr>
      else if phase (gameState a) = PASS_TO_GUESS_P2
        then a\<lparr>gameState := (gameState a)\<lparr>phase := GUESS_P2\<rparr>\<rparr>
      else a)"

definition playerName :: "bool \<Rightarrow> string" where
  "playerName isP1 = (if isP1 then ''Player 1'' else ''Player 2'')"

definition playHintCard :: "Unicode \<Rightarrow> 32 word \<Rightarrow> HintCard \<Rightarrow> App \<Rightarrow> exn + App" where
  "playHintCard uc arr0 crd a =
     (let g = gameState a;
          isP1 = (phase g = GUESS_P1);
          opponent = (if isP1 then p2 g else p1 g);
          player = (if isP1 then p1 g else p2 g)
      in case secret opponent of
           None \<Rightarrow> Inr a
         | Some osec \<Rightarrow>
             if requiresInput crd \<and> trim (cardInput a) = [] then
               Inr (a\<lparr>error := Some MissingHintInput\<rparr>)
             else
               (case effect crd uc (word osec) (revealed (public player)) (cardInput a) arr0 of
                  Inl e \<Rightarrow> Inl e
                | Inr newRevealed \<Rightarrow>
                    (let updatedOpponent =
                           opponent\<lparr>public := (public opponent)
                                      \<lparr>score := score (public opponent) + cost crd\<rparr>\<rparr>;
                         updatedPlayer =
                           player\<lparr>public := (public player)\<lparr>revealed := newRevealed\<rparr>\<rparr>;
                         newHintLog = hintLog g @
                           [\<lparr>HintLogEntry.player = playerName isP1, card = name crd,
                             cost = cost crd\<rparr>];
                         bothSolved = (guessSolved (public updatedPlayer)
                                       \<and> guessSolved (public updatedOpponent))
                     in Inr (a\<lparr>gameState := g
                               \<lparr>p1 := (if isP1 then updatedPlayer else updatedOpponent),
                                p2 := (if isP1 then updatedOpponent else updatedPlayer),
                                hintLog := newHintLog,
                                phase := (if bothSolved then ENDGAME
                                          else if isP1 then PASS_TO_GUESS_P2
                                          else PASS_TO_GUESS_P1)\<rparr>,
                              selectedCard := None, cardInput := [], error := None\<rparr>))))"

definition submitGuess :: "Unicode \<Rightarrow> App \<Rightarrow> App" where
  "submitGuess uc a =
     (if trim (guessWord a) = [] then a\<lparr>error := Some EmptyGuess\<rparr>
      else
        (let g = gameState a;
             isP1 = (phase g = GUESS_P1);
             opponent = (if isP1 then p2 g else p1 g);
             player = (if isP1 then p1 g else p2 g)
         in case secret opponent of
              None \<Rightarrow> a
            | Some osec \<Rightarrow>
                (let correct = (toLowerCase uc (guessWord a) = word osec)
                 in if correct then
                      (let updatedPlayer =
                             player\<lparr>public := (public player)\<lparr>guessSolved := True\<rparr>\<rparr>;
                           bothSolved = (guessSolved (public updatedPlayer)
                                         \<and> guessSolved (public opponent))
                       in a\<lparr>gameState := g
                            \<lparr>p1 := (if isP1 then updatedPlayer else opponent),
                             p2 := (if isP1 then opponent else updatedPlayer),
                             phase := (if bothSolved then ENDGAME
                                       else if isP1 then PASS_TO_GUESS_P2
                                       else PASS_TO_GUESS_P1)\<rparr>,
                           guessWord := [], error := None\<rparr>)
                    else
                      (let updatedOpponent =
                             opponent\<lparr>public := (public opponent)
                                        \<lparr>score := score (public opponent) + WRONG_GUESS_PENALTY\<rparr>\<rparr>;
                           newWrongGuesses = wrongGuesses g @
                             [\<lparr>WrongGuess.player = playerName isP1, word = guessWord a,
                               penalty = WRONG_GUESS_PENALTY\<rparr>]
                       in a\<lparr>gameState := g
                            \<lparr>p1 := (if isP1 then player else updatedOpponent),
                             p2 := (if isP1 then updatedOpponent else player),
                             wrongGuesses := newWrongGuesses,
                             phase := (if isP1 then PASS_TO_GUESS_P2 else PASS_TO_GUESS_P1)\<rparr>,
                           error := Some (WrongGuess (guessWord a)), guessWord := []\<rparr>))))"

definition resetGame :: "Dictionary \<Rightarrow> App \<Rightarrow> App" where
  "resetGame words a =
     a\<lparr>gameState := initialGameState (isReady words),
       setupWord := [], guessWord := [], error := None\<rparr>"

section \<open>The state machine as the user can drive it\<close>

text \<open>
  The component renders one screen per phase, and a handler can only be invoked from the
  screen that carries its control. \<open>offered\<close> is that gating, including the disabled
  flags of the buttons; \<open>perform\<close> runs the handler. The input fields normalise what is
  typed: the two word fields lower-case it, the card input upper-cases it and keeps one
  character. The guess can also be submitted with the Enter key, which no flag disables.
\<close>

datatype action =
    TypeSetupWord jsstring
  | TypeGuessWord jsstring
  | SelectCard HintCard
  | TypeCardInput jsstring
  | CancelCard
  | StartGame "nat \<Rightarrow> 32 word"
  | ConfirmSetupWord "nat \<Rightarrow> 32 word"
  | ProceedToGuess
  | PlayHintCard "32 word"
  | SubmitGuess
  | ResetGame

definition setupPhase :: "Phase \<Rightarrow> bool" where
  "setupPhase ph = (ph = SETUP_P1 \<or> ph = SETUP_P2)"

definition passPhase :: "Phase \<Rightarrow> bool" where
  "passPhase ph = (ph = PASS_TO_GUESS_P1 \<or> ph = PASS_TO_GUESS_P2)"

definition guessPhase :: "Phase \<Rightarrow> bool" where
  "guessPhase ph = (ph = GUESS_P1 \<or> ph = GUESS_P2)"

fun offered :: "action \<Rightarrow> App \<Rightarrow> bool" where
  "offered (StartGame rnd) a =
     (phase (gameState a) = START \<and> dictionaryReady (gameState a))"
| "offered (TypeSetupWord v) a = setupPhase (phase (gameState a))"
| "offered (ConfirmSetupWord rnd) a =
     (setupPhase (phase (gameState a)) \<and> trim (setupWord a) \<noteq> [])"
| "offered ProceedToGuess a = passPhase (phase (gameState a))"
| "offered (TypeGuessWord v) a = guessPhase (phase (gameState a))"
| "offered SubmitGuess a = guessPhase (phase (gameState a))"
| "offered (SelectCard crd) a = (guessPhase (phase (gameState a)) \<and> crd \<in> set HINT_CARDS)"
| "offered (TypeCardInput v) a =
     (guessPhase (phase (gameState a)) \<and>
      (case selectedCard a of None \<Rightarrow> False | Some crd \<Rightarrow> requiresInput crd))"
| "offered CancelCard a = (guessPhase (phase (gameState a)) \<and> selectedCard a \<noteq> None)"
| "offered (PlayHintCard arr0) a = (guessPhase (phase (gameState a)) \<and> selectedCard a \<noteq> None)"
| "offered ResetGame a = (phase (gameState a) = ENDGAME)"

fun perform :: "Unicode \<Rightarrow> Dictionary \<Rightarrow> action \<Rightarrow> App \<Rightarrow> exn + App" where
  "perform uc words (TypeSetupWord v) a = Inr (a\<lparr>setupWord := toLowerCase uc v\<rparr>)"
| "perform uc words (TypeGuessWord v) a = Inr (a\<lparr>guessWord := toLowerCase uc v\<rparr>)"
| "perform uc words (SelectCard crd) a = Inr (a\<lparr>selectedCard := Some crd\<rparr>)"
| "perform uc words (TypeCardInput v) a = Inr (a\<lparr>cardInput := take 1 (toUpperCase uc v)\<rparr>)"
| "perform uc words CancelCard a = Inr (a\<lparr>selectedCard := None, cardInput := []\<rparr>)"
| "perform uc words (StartGame rnd) a = Inr (startGame rnd a)"
| "perform uc words (ConfirmSetupWord rnd) a = confirmSetupWord uc words rnd a"
| "perform uc words ProceedToGuess a = Inr (proceedToGuess a)"
| "perform uc words (PlayHintCard arr0) a =
     (case selectedCard a of None \<Rightarrow> Inr a | Some crd \<Rightarrow> playHintCard uc arr0 crd a)"
| "perform uc words SubmitGuess a = Inr (submitGuess uc a)"
| "perform uc words ResetGame a = Inr (resetGame words a)"

text \<open>
  The states the component can be in, together with the state of the dictionary loader:
  the loader starts empty and is filled once, at which point the effect hook sets
  \<^verbatim>\<open>dictionaryReady\<close>.
\<close>

inductive reachable :: "Unicode \<Rightarrow> Dictionary \<Rightarrow> App \<Rightarrow> bool" for uc where
  init: "reachable uc None initialApp"
| loaded: "reachable uc None a \<Longrightarrow> reachable uc (Some ws) (dictionaryLoaded a)"
| step: "reachable uc words a \<Longrightarrow> offered act a \<Longrightarrow> perform uc words act a = Inr a'
           \<Longrightarrow> reachable uc words a'"

section \<open>Auxiliary notions for the statements\<close>

text \<open>
  A letter inventory in the sense of the data model: the keys of an object are distinct,
  and all counts are non-negative.
\<close>

definition inventory :: "LetterRecord \<Rightarrow> bool" where
  "inventory record = (distinct (map fst record) \<and> (\<forall>(l, n) \<in> set record. 0 \<le> n))"

text \<open>The number of tiles in a letter record.\<close>

definition tiles :: "LetterRecord \<Rightarrow> int" where
  "tiles record = sum_list (map snd record)"

text \<open>A component state in a guessing phase, with both secret words given, for examples.\<close>

definition guessingApp :: "Phase \<Rightarrow> jsstring \<Rightarrow> jsstring \<Rightarrow> App" where
  "guessingApp ph w1 w2 =
     initialApp\<lparr>gameState := (initialGameState True)
       \<lparr>phase := ph,
        p1 := \<lparr>secret = Some \<lparr>letters = [], word = w1\<rparr>, public = freshPublic\<rparr>,
        p2 := \<lparr>secret = Some \<lparr>letters = [], word = w2\<rparr>, public = freshPublic\<rparr>\<rparr>\<rparr>"

text \<open>
  Tables that change nothing, to state the examples with. They stand for no platform: every
  example is Latin-1 text, on which no table is consulted (\<open>toUpperCase_latin1\<close>,
  \<open>toLowerCase_latin1\<close>), and every theorem is proved for all tables.
\<close>

definition noTable :: Unicode where
  "noTable = \<lparr>upperTable = (\<lambda>s. s), lowerTable = (\<lambda>s. s)\<rparr>"

text \<open>A three-tile inventory, for examples.\<close>

definition catInventory :: LetterRecord where
  "catInventory = [(CHR ''C'', 1), (CHR ''A'', 1), (CHR ''T'', 1)]"

text \<open>The letters a player knows without position: \<^verbatim>\<open>revealed.knownLetters || []\<close>.\<close>

definition known :: "RevealedInfo \<Rightarrow> jsstring list" where
  "known ri = (case knownLetters ri of None \<Rightarrow> [] | Some ks \<Rightarrow> ks)"

text \<open>
  A new revealed record merges one clue into an old one: at most one of the seven fields
  differs; a field that was present is present; every key of \<^verbatim>\<open>contains\<close> is still a key
  and all keys but one keep their answer; the known letters are the old list, or the old
  list with one new letter at its end; every revealed position of \<^verbatim>\<open>pattern\<close> keeps its
  letter and all positions but one are as before.
\<close>

definition changedFields :: "RevealedInfo \<Rightarrow> RevealedInfo \<Rightarrow> nat" where
  "changedFields old new =
     length (filter (\<lambda>changed. changed)
       [length_r new \<noteq> length_r old, firstLetter new \<noteq> firstLetter old,
        lastLetter new \<noteq> lastLetter old, vowelCount new \<noteq> vowelCount old,
        contains new \<noteq> contains old, knownLetters new \<noteq> knownLetters old,
        pattern new \<noteq> pattern old])"

definition mergesClue :: "RevealedInfo \<Rightarrow> RevealedInfo \<Rightarrow> bool" where
  "mergesClue old new =
     (changedFields old new \<le> 1
    \<and> (length_r old \<noteq> None \<longrightarrow> length_r new \<noteq> None)
    \<and> (firstLetter old \<noteq> None \<longrightarrow> firstLetter new \<noteq> None)
    \<and> (lastLetter old \<noteq> None \<longrightarrow> lastLetter new \<noteq> None)
    \<and> (vowelCount old \<noteq> None \<longrightarrow> vowelCount new \<noteq> None)
    \<and> (\<forall>k. spread (contains old) k \<noteq> None \<longrightarrow> spread (contains new) k \<noteq> None)
    \<and> (\<exists>key. \<forall>k. k \<noteq> key \<longrightarrow> spread (contains new) k = spread (contains old) k)
    \<and> (known new = known old \<or> (\<exists>l. l \<notin> set (known old) \<and> known new = known old @ [l]))
    \<and> (\<forall>i l. spread (pattern old) i = Some l \<and> l \<noteq> [] \<longrightarrow> spread (pattern new) i = Some l)
    \<and> (\<exists>idx. \<forall>i. i \<noteq> idx \<longrightarrow> spread (pattern new) i = spread (pattern old) i))"

text \<open>A revealed record that already knows every letter of \<open>hello\<close>, for examples.\<close>

definition helloRevealed :: RevealedInfo where
  "helloRevealed = emptyRevealed\<lparr>knownLetters := Some [js ''O'', js ''L'', js ''E'', js ''H'']\<rparr>"

text \<open>
  Player 1, who already knows the letters of \<open>hello\<close> without their positions, is guessing
  at that word.
\<close>

definition cluedApp :: App where
  "cluedApp =
     initialApp\<lparr>gameState := (initialGameState True)
       \<lparr>phase := GUESS_P1,
        p1 := \<lparr>secret = Some \<lparr>letters = [], word = js ''dog''\<rparr>,
               public = freshPublic\<lparr>revealed := helloRevealed\<rparr>\<rparr>,
        p2 := \<lparr>secret = Some \<lparr>letters = [], word = js ''hello''\<rparr>, public = freshPublic\<rparr>\<rparr>\<rparr>"

text \<open>Player 1 guesses at the secret \<open>cat\<close> with a trailing space typed after the word.\<close>

definition paddedGuessApp :: App where
  "paddedGuessApp = (guessingApp GUESS_P1 (js ''dog'') (js ''cat''))\<lparr>guessWord := js ''cat ''\<rparr>"

text \<open>Player 1 is setting up with the inventory \<open>catInventory\<close> and has typed \<open>dog\<close>.\<close>

definition setupApp :: App where
  "setupApp =
     initialApp\<lparr>gameState := (initialGameState True)
       \<lparr>phase := SETUP_P1,
        p1 := \<lparr>secret = Some \<lparr>letters = catInventory, word = []\<rparr>, public = freshPublic\<rparr>\<rparr>,
       setupWord := js ''dog''\<rparr>"

text \<open>
  A player who has neither points nor a solved guess, and the invariant that makes the
  two setup transitions harmless: the public record that \<^verbatim>\<open>startGame\<close> and the first
  \<^verbatim>\<open>confirmSetupWord\<close> overwrite is still fresh when they run, and a selected card comes
  from the catalog.
\<close>

definition fresh :: "Player \<Rightarrow> bool" where
  "fresh pl = (score (public pl) = 0 \<and> \<not> guessSolved (public pl))"

definition setupInvariant :: "App \<Rightarrow> bool" where
  "setupInvariant a =
     ((phase (gameState a) = START \<longrightarrow> fresh (p1 (gameState a)) \<and> fresh (p2 (gameState a)))
    \<and> (phase (gameState a) = SETUP_P1 \<longrightarrow> fresh (p2 (gameState a)))
    \<and> (\<forall>crd. selectedCard a = Some crd \<longrightarrow> crd \<in> set HINT_CARDS))"

text \<open>No score has dropped and no solved flag has been cleared between two game states.\<close>

definition noLoss :: "GameState \<Rightarrow> GameState \<Rightarrow> bool" where
  "noLoss g g' =
     (score (public (p1 g)) \<le> score (public (p1 g'))
    \<and> score (public (p2 g)) \<le> score (public (p2 g'))
    \<and> (guessSolved (public (p1 g)) \<longrightarrow> guessSolved (public (p1 g')))
    \<and> (guessSolved (public (p2 g)) \<longrightarrow> guessSolved (public (p2 g'))))"

text \<open>What every draw keeps: distinct keys, counts of at least one, keys from the pool.\<close>

definition drawn :: "Letter set \<Rightarrow> LetterRecord \<Rightarrow> bool" where
  "drawn ks al = (distinct (map fst al) \<and> (\<forall>(l, n) \<in> set al. 1 \<le> n) \<and> fst ` set al \<subseteq> ks)"

text \<open>
  Running a list of actions, each of which must be offered by the screen it is invoked on;
  \<open>None\<close> when an action is not offered or a handler throws.
\<close>

fun run :: "Unicode \<Rightarrow> Dictionary \<Rightarrow> action list \<Rightarrow> App \<Rightarrow> App option" where
  "run uc words [] a = Some a"
| "run uc words (act # acts) a =
     (if offered act a
      then (case perform uc words act a of Inl e \<Rightarrow> None | Inr a' \<Rightarrow> run uc words acts a')
      else None)"

text \<open>
  The state after a setup with the words \<open>cab\<close> and \<open>pine\<close>, when player 1 has opened
  the Word Length card.
\<close>

definition midGame :: App where
  "midGame =
     \<lparr>gameState =
        \<lparr>mode = SCORING_MODE, minWordLen = MIN_WORD_LENGTH, phase = GUESS_P1,
         p1 = \<lparr>secret = Some \<lparr>letters = [(CHR ''A'', 4), (CHR ''B'', 3), (CHR ''C'', 2), (CHR ''D'', 2)],
                              word = js ''cab''\<rparr>,
               public = freshPublic\<rparr>,
         p2 = \<lparr>secret = Some \<lparr>letters = [(CHR ''E'', 2), (CHR ''I'', 2), (CHR ''N'', 5), (CHR ''P'', 2)],
                              word = js ''pine''\<rparr>,
               public = freshPublic\<rparr>,
         swap = Some \<lparr>p1Gets = [(CHR ''E'', 2), (CHR ''I'', 2), (CHR ''N'', 5), (CHR ''P'', 2)],
                      p2Gets = [(CHR ''A'', 4), (CHR ''B'', 3), (CHR ''C'', 2), (CHR ''D'', 2)]\<rparr>,
         dictionaryReady = True, hintLog = [], wrongGuesses = []\<rparr>,
      setupWord = [], guessWord = [], selectedCard = Some (HINT_CARDS ! 1), cardInput = [],
      error = None\<rparr>"

section \<open>Strings\<close>

lemma of_char_less_256: "(of_char c :: nat) < 256"
proof -
  have "(of_char c :: nat) mod 256 = of_char c" by (rule of_char_mod_256)
  then show ?thesis by (metis mod_less_divisor zero_less_numeral)
qed

lemma of_char_latin1: "(of_char c :: CodeUnit) \<le> 0xFF"
proof -
  have "(of_char c :: nat) < 65536"
    using of_char_less_256 [of c] by linarith
  then have small: "(of_char c :: nat) < 2 ^ 16"
    by simp
  have "take_bit 16 (of_char c :: nat) = of_char c"
    using small by (simp only: take_bit_nat_eq_self)
  moreover have "take_bit 16 (255 :: nat) = 255"
    by simp
  ultimately have "take_bit 16 (of_char c :: nat) \<le> take_bit 16 (255 :: nat)"
    using of_char_less_256 [of c] by linarith
  then have "(word_of_nat (of_char c) :: CodeUnit) \<le> word_of_nat 255"
    by (subst word_of_nat_less_eq_iff) simp
  moreover have "(word_of_nat (of_char c) :: CodeUnit) = of_char c"
    by (rule of_nat_of_char)
  moreover have "(word_of_nat 255 :: CodeUnit) = 0xFF"
    by simp
  ultimately show ?thesis by (simp only:)
qed

lemma latin1_js: "latin1 (js s)"
  by (simp add: latin1_def js_def list_all_iff of_char_latin1)

lemma toUpperCase_latin1: "latin1 s \<Longrightarrow> toUpperCase uc s = toUpperCase uc' s"
  by (simp add: toUpperCase_def)

lemma toLowerCase_latin1: "latin1 s \<Longrightarrow> toLowerCase uc s = toLowerCase uc' s"
  by (simp add: toLowerCase_def)

section \<open>Letter counting and buildability\<close>

lemma of_char_word_inj: "(of_char c :: CodeUnit) = of_char d \<longleftrightarrow> c = d"
proof
  assume eq: "(of_char c :: CodeUnit) = of_char d"
  have "(of_nat (of_char c) :: CodeUnit) = of_nat (of_char d)"
    using eq by (simp only: of_nat_of_char)
  then have "take_bit 16 (of_char c :: nat) = take_bit 16 (of_char d :: nat)"
    by (simp add: word_of_nat_eq_iff)
  moreover have "(of_char c :: nat) < 65536" "(of_char d :: nat) < 65536"
    using of_char_less_256 [of c] of_char_less_256 [of d] by linarith+
  ultimately have "(of_char c :: nat) = of_char d"
    by (simp add: take_bit_nat_eq_self)
  then show "c = d" by simp
qed simp

lemma keyString_eq_iff: "keyString a = keyString b \<longleftrightarrow> a = b"
  by (simp add: keyString_def js_def of_char_word_inj)

lemma countOr0_Nil: "countOr0 [] c = 0"
  by (simp add: countOr0_def)

lemma countOr0_update: "countOr0 (AList.update k v al) c = (if c = k then v else countOr0 al c)"
  by (simp add: countOr0_def update_conv')

lemma countOr0_distinct: "distinct (map fst al) \<Longrightarrow> (k, v) \<in> set al \<Longrightarrow> countOr0 al k = v"
  by (simp add: countOr0_def)

lemma countOr0_outside: "l \<notin> fst ` set al \<Longrightarrow> countOr0 al l = 0"
proof -
  assume "l \<notin> fst ` set al"
  then have "map_of al l = None" by (simp add: map_of_eq_None_iff)
  then show ?thesis by (simp add: countOr0_def)
qed

lemma countOr0_fold:
  "countOr0 (fold (\<lambda>letter counts. AList.update letter (countOr0 counts letter + 1) counts) xs acc) c
     = countOr0 acc c + int (count_list xs c)"
  by (induction xs arbitrary: acc) (auto simp: countOr0_update)

lemma keys_fold:
  "fst ` set (fold (\<lambda>letter counts. AList.update letter (countOr0 counts letter + 1) counts) xs acc)
     = set xs \<union> fst ` set acc"
  by (induction xs arbitrary: acc) (auto simp: dom_update)

lemma distinct_fold:
  "distinct (map fst acc) \<Longrightarrow>
   distinct (map fst (fold (\<lambda>letter counts. AList.update letter (countOr0 counts letter + 1) counts) xs acc))"
  by (induction xs arbitrary: acc) (auto simp: distinct_update)

lemma countLetters_count:
  "countOr0 (countLetters uc w) c = int (count_list (codePoints (toUpperCase uc w)) c)"
  by (simp add: countLetters_def countOr0_fold countOr0_Nil)

lemma countLetters_keys: "fst ` set (countLetters uc w) = set (codePoints (toUpperCase uc w))"
  by (simp add: countLetters_def keys_fold)

lemma countLetters_distinct: "distinct (map fst (countLetters uc w))"
  by (simp add: countLetters_def distinct_fold)

lemma canBuildLoop_iff:
  "canBuildLoop needed available \<longleftrightarrow>
     (\<forall>(l, n) \<in> set needed. n \<le> countOr0 (keyStrings available) l)"
  by (induction needed available rule: canBuildLoop.induct) auto

text \<open>
  What the two loops compute together: every code point of the upper-cased word occurs in it
  at most as often as the record provides.
\<close>

lemma canBuild_iff:
  "canBuild uc w available \<longleftrightarrow>
     (\<forall>c \<in> set (codePoints (toUpperCase uc w)).
        int (count_list (codePoints (toUpperCase uc w)) c) \<le> countOr0 (keyStrings available) c)"
proof -
  have "(\<forall>(l, n) \<in> set (countLetters uc w). n \<le> countOr0 (keyStrings available) l) \<longleftrightarrow>
        (\<forall>c \<in> fst ` set (countLetters uc w).
           countOr0 (countLetters uc w) c \<le> countOr0 (keyStrings available) c)"
    using countOr0_distinct [OF countLetters_distinct] by fastforce
  then show ?thesis
    by (simp add: canBuild_def canBuildLoop_iff countLetters_keys countLetters_count)
qed

lemma flattenLetters_Cons:
  "flattenLetters ((l, n) # al) = replicate (nat n) l @ flattenLetters al"
  by (simp add: flattenLetters_def)

lemma count_list_replicate: "count_list (replicate k x) c = (if c = x then k else 0)"
  by (induction k) auto

lemma keyStrings_Cons: "keyStrings ((l, n) # al) = (keyString l, n) # keyStrings al"
  by (simp add: keyStrings_def)

lemma keyStrings_keys: "fst ` set (keyStrings al) = keyString ` fst ` set al"
  by (force simp: keyStrings_def)

lemma count_flattenLetters:
  "distinct (map fst al) \<Longrightarrow>
   count_list (map keyString (flattenLetters al)) c = nat (countOr0 (keyStrings al) c)"
proof (induction al)
  case Nil
  then show ?case by (simp add: flattenLetters_def countOr0_def keyStrings_def)
next
  case (Cons p al)
  obtain l n where p: "p = (l, n)" by (cases p)
  from Cons.prems p have notin: "l \<notin> fst ` set al" and d: "distinct (map fst al)" by auto
  have "keyString l \<notin> fst ` set (keyStrings al)"
  proof
    assume "keyString l \<in> fst ` set (keyStrings al)"
    then have "keyString l \<in> keyString ` fst ` set al" by (simp only: keyStrings_keys)
    then obtain l' where "l' \<in> fst ` set al" and "keyString l = keyString l'" by blast
    with notin show False by (simp add: keyString_eq_iff)
  qed
  then have z: "countOr0 (keyStrings al) (keyString l) = 0" by (rule countOr0_outside)
  have "count_list (map keyString (flattenLetters (p # al))) c
          = (if c = keyString l then nat n else 0) + nat (countOr0 (keyStrings al) c)"
    by (simp add: p flattenLetters_Cons count_list_replicate Cons.IH [OF d])
  also have "\<dots> = nat (countOr0 (keyStrings (p # al)) c)"
    using z by (simp add: p keyStrings_Cons countOr0_def)
  finally show ?case .
qed

lemma inventory_nonneg: "inventory al \<Longrightarrow> 0 \<le> countOr0 (keyStrings al) c"
  by (auto simp: inventory_def countOr0_def keyStrings_def split: option.splits dest!: map_of_SomeD)

text \<open>
  Claim C5. For every inventory and every word: if the code points of the upper-cased word
  are a sub-multiset of the tiles of the inventory (the word can be formed from the
  inventory's letters with multiplicity, ignoring case), \<open>canBuild\<close> holds, so \<open>CannotBuild\<close>
  is not reported; and if some letter is needed more often than the inventory has it,
  \<open>canBuild\<close> fails. The upper-casing is that of the platform, whatever its tables are.
\<close>

theorem canBuild_spec:
  assumes "inventory available"
  shows "(mset (codePoints (toUpperCase uc w)) \<subseteq># mset (map keyString (flattenLetters available))
            \<longrightarrow> canBuild uc w available)
       \<and> ((\<exists>c. countOr0 (keyStrings available) c
                 < int (count_list (codePoints (toUpperCase uc w)) c))
            \<longrightarrow> \<not> canBuild uc w available)"
proof (intro conjI impI)
  let ?up = "codePoints (toUpperCase uc w)"
  assume sub: "mset ?up \<subseteq># mset (map keyString (flattenLetters available))"
  show "canBuild uc w available"
    unfolding canBuild_iff
  proof
    fix c assume "c \<in> set ?up"
    from sub have "count (mset ?up) c \<le> count (mset (map keyString (flattenLetters available))) c"
      by (rule mset_subset_eq_count)
    then have "count_list ?up c \<le> count_list (map keyString (flattenLetters available)) c"
      by (simp only: count_mset)
    then have "count_list ?up c \<le> nat (countOr0 (keyStrings available) c)"
      using assms by (simp add: count_flattenLetters inventory_def)
    then show "int (count_list ?up c) \<le> countOr0 (keyStrings available) c"
      using inventory_nonneg [OF assms, of c] by linarith
  qed
next
  let ?up = "codePoints (toUpperCase uc w)"
  assume "\<exists>c. countOr0 (keyStrings available) c < int (count_list ?up c)"
  then obtain c where c: "countOr0 (keyStrings available) c < int (count_list ?up c)" ..
  with inventory_nonneg [OF assms, of c] have "count_list ?up c \<noteq> 0" by linarith
  then have "c \<in> set ?up" by (metis count_list_0_iff)
  with c show "\<not> canBuild uc w available"
    unfolding canBuild_iff by (meson not_le)
qed

lemma catInventory_inventory: "inventory catInventory"
  by (simp add: inventory_def catInventory_def)

lemma canBuild_Cat: "canBuild uc (js ''Cat'') catInventory"
  by code_simp

lemma not_canBuild_catt: "\<not> canBuild uc (js ''catt'') catInventory"
  by code_simp

lemma upper_Cat: "codePoints (toUpperCase uc (js ''Cat'')) = [js ''C'', js ''A'', js ''T'']"
  by code_simp

lemma upper_catt: "codePoints (toUpperCase uc (js ''catt'')) = [js ''C'', js ''A'', js ''T'', js ''T'']"
  by code_simp

lemma tiles_catInventory: "map keyString (flattenLetters catInventory) = [js ''C'', js ''A'', js ''T'']"
  by code_simp

lemma Cat_sub_catInventory:
  "mset (codePoints (toUpperCase uc (js ''Cat''))) \<subseteq># mset (map keyString (flattenLetters catInventory))"
  by (simp add: upper_Cat tiles_catInventory)

lemma keys_differ: "js ''T'' \<noteq> js ''C''" "js ''T'' \<noteq> js ''A''"
  by code_simp+

lemma catt_needs_two:
  "countOr0 (keyStrings catInventory) (js ''T'')
     < int (count_list (codePoints (toUpperCase uc (js ''catt''))) (js ''T''))"
  by code_simp

text \<open>
  The sharp s upper-cases to \<open>SS\<close>: \<open>mass\<close> written with it can be built from the tiles
  M, A, S, S. A word with an accented letter needs that letter.
\<close>

lemma canBuild_sharp_s:
  "canBuild uc (js [CHR ''m'', CHR ''a'', CHR 0xDF]) [(CHR ''M'', 1), (CHR ''A'', 1), (CHR ''S'', 2)]"
  by code_simp

lemma not_canBuild_accent:
  "\<not> canBuild uc (js [CHR ''c'', CHR ''a'', CHR ''f'', CHR 0xE9])
        [(CHR ''C'', 1), (CHR ''A'', 1), (CHR ''F'', 1), (CHR ''E'', 1)]"
  by code_simp

theorem canBuild_spec_witness:
  "inventory catInventory
 \<and> mset (codePoints (toUpperCase noTable (js ''Cat'')))
      \<subseteq># mset (map keyString (flattenLetters catInventory))
 \<and> canBuild noTable (js ''Cat'') catInventory
 \<and> countOr0 (keyStrings catInventory) (js ''T'')
      < int (count_list (codePoints (toUpperCase noTable (js ''catt''))) (js ''T''))
 \<and> \<not> canBuild noTable (js ''catt'') catInventory"
  using canBuild_spec [OF catInventory_inventory, of noTable "js ''Cat''"]
        canBuild_spec [OF catInventory_inventory, of noTable "js ''catt''"]
        catInventory_inventory Cat_sub_catInventory [of noTable] catt_needs_two [of noTable]
  by blast

section \<open>Word validation\<close>

text \<open>
  Claim C4. \<open>validateWord\<close> reports \<open>TooShort\<close> exactly when the word has fewer than 3
  code units; otherwise \<open>CannotBuild\<close> exactly when the word cannot be built from the
  inventory; otherwise \<open>NotInDictionary\<close> exactly when the dictionary does not hold the
  lower-cased, trimmed word (a dictionary that is not loaded holds no word); otherwise no
  error.
\<close>

theorem validateWord_order:
  "(validateWord uc words w ls = Some TooShort \<longleftrightarrow> length w < 3)
 \<and> (validateWord uc words w ls = Some CannotBuild \<longleftrightarrow> \<not> length w < 3 \<and> \<not> canBuild uc w ls)
 \<and> (validateWord uc words w ls = Some NotInDictionary \<longleftrightarrow>
        \<not> length w < 3 \<and> canBuild uc w ls
        \<and> (\<forall>ws. words = Some ws \<longrightarrow> trim (toLowerCase uc w) \<notin> ws))
 \<and> (validateWord uc words w ls = None \<longleftrightarrow>
        \<not> length w < 3 \<and> canBuild uc w ls
        \<and> (\<exists>ws. words = Some ws \<and> trim (toLowerCase uc w) \<in> ws))"
  by (cases words) (simp_all add: validateWord_def MIN_WORD_LENGTH_def isValidWord_def)

lemma trim_lower_Cat: "trim (toLowerCase uc (js ''Cat'')) = js ''cat''"
  by code_simp

lemma length_js: "length (js s) = length s"
  by (simp add: js_def)

lemma cat_not_dog: "js ''cat'' \<noteq> js ''dog''"
  by code_simp

text \<open>
  With the tiles M, A, S, S the word \<open>mass\<close> written with a sharp s passes the buildability
  check, so the dictionary decides.
\<close>

lemma validate_sharp_s:
  "validateWord uc (Some ws) (js [CHR ''m'', CHR ''a'', CHR 0xDF])
     [(CHR ''M'', 1), (CHR ''A'', 1), (CHR ''S'', 2)]
   = (if js [CHR ''m'', CHR ''a'', CHR 0xDF] \<in> ws then None else Some NotInDictionary)"
proof -
  have "trim (toLowerCase uc (js [CHR ''m'', CHR ''a'', CHR 0xDF])) = js [CHR ''m'', CHR ''a'', CHR 0xDF]"
    by code_simp
  then show ?thesis
    by (simp add: validateWord_def MIN_WORD_LENGTH_def isValidWord_def canBuild_sharp_s length_js)
qed

theorem validateWord_order_witness:
  "validateWord noTable (Some {js ''cat''}) (js ''Cat'') catInventory = None
 \<and> validateWord noTable (Some {js ''dog''}) (js ''Cat'') catInventory = Some NotInDictionary
 \<and> validateWord noTable None (js ''Cat'') catInventory = Some NotInDictionary
 \<and> validateWord noTable (Some {js ''catt''}) (js ''catt'') catInventory = Some CannotBuild
 \<and> validateWord noTable (Some {js ''at''}) (js ''at'') catInventory = Some TooShort"
  using validateWord_order [of noTable "Some {js ''cat''}" "js ''Cat''" catInventory]
        validateWord_order [of noTable "Some {js ''dog''}" "js ''Cat''" catInventory]
        validateWord_order [of noTable None "js ''Cat''" catInventory]
        validateWord_order [of noTable "Some {js ''catt''}" "js ''catt''" catInventory]
        validateWord_order [of noTable "Some {js ''at''}" "js ''at''" catInventory]
        canBuild_Cat [of noTable] not_canBuild_catt [of noTable] trim_lower_Cat [of noTable]
        cat_not_dog
  by (simp add: length_js)

section \<open>The random source\<close>

lemma two32: "(2::nat) ^ 32 = 4294967296"
  by simp

lemma len32: "LENGTH(32) = 32"
  by simp

lemma unat32: "unat (u :: 32 word) < 4294967296"
proof -
  have "unat u < 2 ^ LENGTH(32)" by (rule unsigned_less)
  then show ?thesis by (simp only: len32 two32)
qed

lemma unit_fraction:
  "n < 4294967296 \<Longrightarrow>
     0 \<le> (of_nat n :: rat) / (0xFFFFFFFF + 1) \<and> (of_nat n :: rat) / (0xFFFFFFFF + 1) < 1"
  by simp

lemma randomFloat_bounds: "0 \<le> randomFloat u \<and> randomFloat u < 1"
  unfolding randomFloat_def by (rule unit_fraction) (rule unat32)

lemma randomIndex_less: "0 < n \<Longrightarrow> randomIndex u n < n"
proof -
  assume n: "0 < n"
  have "randomFloat u * of_nat n < of_nat n"
    using randomFloat_bounds [of u] n by simp
  then have "\<lfloor>randomFloat u * of_nat n\<rfloor> < int n"
    by (simp add: floor_less_iff)
  then show ?thesis
    using n unfolding randomIndex_def by linarith
qed

lemma set_uniqueOf_fold:
  "set (fold (\<lambda>x seen. if x \<in> set seen then seen else seen @ [x]) xs acc) = set xs \<union> set acc"
  by (induction xs arbitrary: acc) auto

lemma distinct_uniqueOf_fold:
  "distinct acc \<Longrightarrow> distinct (fold (\<lambda>x seen. if x \<in> set seen then seen else seen @ [x]) xs acc)"
  by (induction xs arbitrary: acc) auto

lemma set_uniqueOf: "set (uniqueOf xs) = set xs"
  by (simp add: uniqueOf_def set_uniqueOf_fold)

lemma distinct_uniqueOf: "distinct (uniqueOf xs)"
  by (simp add: uniqueOf_def distinct_uniqueOf_fold)

section \<open>Hint card effects\<close>

lemma randomLetterEffect_cases:
  "(set (map (\<lambda>c. toUpperCase uc [c]) w) \<subseteq> set (known ri)
      \<and> randomLetterEffect uc w ri input u = Inr ri)
 \<or> (\<exists>l. l \<in> set (map (\<lambda>c. toUpperCase uc [c]) w) \<and> l \<notin> set (known ri)
        \<and> randomLetterEffect uc w ri input u
            = Inr (ri\<lparr>knownLetters := Some (known ri @ [l])\<rparr>))"
proof -
  let ?av = "filter (\<lambda>l. l \<notin> set (known ri)) (uniqueOf (map (\<lambda>c. toUpperCase uc [c]) w))"
  show ?thesis
  proof (cases "?av = []")
    case True
    then have "set (map (\<lambda>c. toUpperCase uc [c]) w) \<subseteq> set (known ri)"
      by (auto simp: filter_empty_conv set_uniqueOf)
    moreover from True have "randomLetterEffect uc w ri input u = Inr ri"
      by (simp add: randomLetterEffect_def known_def)
    ultimately show ?thesis by blast
  next
    case False
    then have "randomIndex u (length ?av) < length ?av"
      by (simp add: randomIndex_less)
    then have "?av ! randomIndex u (length ?av) \<in> set ?av"
      by (rule nth_mem)
    then have "?av ! randomIndex u (length ?av) \<in> set (map (\<lambda>c. toUpperCase uc [c]) w)"
      and "?av ! randomIndex u (length ?av) \<notin> set (known ri)"
      by (auto simp: set_uniqueOf)
    moreover from False have "randomLetterEffect uc w ri input u
       = Inr (ri\<lparr>knownLetters := Some (known ri @ [?av ! randomIndex u (length ?av)])\<rparr>)"
      by (simp add: randomLetterEffect_def known_def Let_def)
    ultimately show ?thesis by blast
  qed
qed

lemma randomLetterEffect_distinct:
  assumes "distinct (known ri)"
  shows "\<exists>r. randomLetterEffect uc w ri input u = Inr r \<and> distinct (known r)"
  using randomLetterEffect_cases [of uc w ri input u] assms
  by (auto simp: known_def)

text \<open>
  Claim C8. For every secret word and every revealed record whose known letters already
  contain every upper-cased character of the word, the effect of the Random Letter card of
  the catalog returns the record unchanged: it does not throw, the known letters are the
  same list, and a list without duplicates stays without duplicates.
\<close>

theorem randomLetter_all_known:
  assumes "crd \<in> set HINT_CARDS" and "name crd = ''Random Letter''"
      and "set (map (\<lambda>c. toUpperCase uc [c]) w) \<subseteq> set (known ri)"
  shows "effect crd uc w ri input u = Inr ri
       \<and> (\<forall>r. effect crd uc w ri input u = Inr r \<longrightarrow>
             knownLetters r = knownLetters ri
             \<and> (distinct (known ri) \<longrightarrow> distinct (known r)))"
proof -
  from assms(1,2) have "effect crd = randomLetterEffect"
    by (auto simp: HINT_CARDS_def)
  moreover have "randomLetterEffect uc w ri input u = Inr ri"
    using randomLetterEffect_cases [of uc w ri input u] assms(3) by auto
  ultimately show ?thesis by simp
qed

lemma randomLetter_in_catalog: "HINT_CARDS ! 5 \<in> set HINT_CARDS"
  by (simp add: HINT_CARDS_def)

lemma randomLetter_name: "name (HINT_CARDS ! 5) = ''Random Letter''"
  by (simp add: HINT_CARDS_def)

lemma upper_hello:
  "map (\<lambda>c. toUpperCase uc [c]) (js ''hello'') = [js ''H'', js ''E'', js ''L'', js ''L'', js ''O'']"
  by code_simp

lemma hello_all_known:
  "set (map (\<lambda>c. toUpperCase uc [c]) (js ''hello'')) \<subseteq> set (known helloRevealed)"
  by (auto simp add: upper_hello helloRevealed_def known_def)

theorem randomLetter_all_known_witness:
  "HINT_CARDS ! 5 \<in> set HINT_CARDS \<and> name (HINT_CARDS ! 5) = ''Random Letter''
 \<and> set (map (\<lambda>c. toUpperCase noTable [c]) (js ''hello'')) \<subseteq> set (known helloRevealed)
 \<and> effect (HINT_CARDS ! 5) noTable (js ''hello'') helloRevealed [] 7 = Inr helloRevealed"
  using randomLetter_all_known [OF randomLetter_in_catalog randomLetter_name hello_all_known,
          of noTable "[]" 7]
        randomLetter_in_catalog randomLetter_name hello_all_known [of noTable]
  by simp

lemma catalog_effect_total:
  assumes "crd \<in> set HINT_CARDS" and "w \<noteq> []"
  shows "\<exists>r. effect crd uc w ri input arr0 = Inr r"
proof -
  from assms(2) obtain c cs where "w = c # cs" by (cases w) auto
  with assms show ?thesis
    by (auto simp: HINT_CARDS_def lastLetterEffect_def wordLengthEffect_def vowelCountEffect_def
        firstLetterEffect_def containsLetterEffect_def randomLetterEffect_def
        patternPeekEffect_def doubleTroubleEffect_def Let_def)
qed

subsection \<open>Every card merges its clue\<close>

lemma mergesClue_same: "mergesClue ri ri"
  by (simp add: mergesClue_def changedFields_def)

lemma mergesClue_length: "mergesClue ri (ri\<lparr>length_r := Some n\<rparr>)"
  by (simp add: mergesClue_def changedFields_def known_def)

lemma mergesClue_firstLetter: "mergesClue ri (ri\<lparr>firstLetter := Some l\<rparr>)"
  by (simp add: mergesClue_def changedFields_def known_def)

lemma mergesClue_lastLetter: "mergesClue ri (ri\<lparr>lastLetter := Some l\<rparr>)"
  by (simp add: mergesClue_def changedFields_def known_def)

lemma mergesClue_vowelCount: "mergesClue ri (ri\<lparr>vowelCount := Some n\<rparr>)"
  by (simp add: mergesClue_def changedFields_def known_def)

lemma mergesClue_contains:
  "mergesClue ri (ri\<lparr>contains := Some ((spread (contains ri))(key \<mapsto> found))\<rparr>)"
proof -
  have "\<exists>key'. \<forall>k. k \<noteq> key' \<longrightarrow> ((spread (contains ri))(key \<mapsto> found)) k = spread (contains ri) k"
    by (rule exI [of _ key]) simp
  then show ?thesis
    by (simp add: mergesClue_def changedFields_def known_def spread_def)
qed

lemma mergesClue_known:
  "l \<notin> set (known ri) \<Longrightarrow> mergesClue ri (ri\<lparr>knownLetters := Some (known ri @ [l])\<rparr>)"
  by (simp add: mergesClue_def changedFields_def known_def)

lemma mergesClue_pattern:
  assumes "case spread (pattern ri) idx of None \<Rightarrow> True | Some l \<Rightarrow> l = []"
  shows "mergesClue ri (ri\<lparr>pattern := Some ((spread (pattern ri))(idx \<mapsto> v))\<rparr>)"
proof -
  have one: "\<exists>idx'. \<forall>i. i \<noteq> idx' \<longrightarrow> ((spread (pattern ri))(idx \<mapsto> v)) i = spread (pattern ri) i"
    by (rule exI [of _ idx]) simp
  have kept: "\<forall>i l. spread (pattern ri) i = Some l \<and> l \<noteq> []
                \<longrightarrow> ((spread (pattern ri))(idx \<mapsto> v)) i = Some l"
    using assms by (auto split: option.splits)
  show ?thesis
    using one kept by (simp add: mergesClue_def changedFields_def known_def spread_def)
qed

lemma patternPeekEffect_cases:
  "patternPeekEffect uc w ri input u = Inr ri
 \<or> (\<exists>idx. idx < length w
        \<and> (case spread (pattern ri) idx of None \<Rightarrow> True | Some l \<Rightarrow> l = [])
        \<and> patternPeekEffect uc w ri input u
            = Inr (ri\<lparr>pattern := Some ((spread (pattern ri))(idx \<mapsto> toUpperCase uc [w ! idx]))\<rparr>))"
proof -
  let ?av = "filter (\<lambda>i. case spread (pattern ri) i of None \<Rightarrow> True | Some l \<Rightarrow> l = [])
               [0 ..< length w]"
  show ?thesis
  proof (cases "?av = []")
    case True
    then show ?thesis by (simp add: patternPeekEffect_def)
  next
    case False
    then have "randomIndex u (length ?av) < length ?av"
      by (simp add: randomIndex_less)
    then have "?av ! randomIndex u (length ?av) \<in> set ?av"
      by (rule nth_mem)
    then have "?av ! randomIndex u (length ?av) < length w"
      and "case spread (pattern ri) (?av ! randomIndex u (length ?av)) of
             None \<Rightarrow> True | Some l \<Rightarrow> l = []"
      by simp_all
    moreover from False have "patternPeekEffect uc w ri input u
       = Inr (ri\<lparr>pattern := Some ((spread (pattern ri))
                (?av ! randomIndex u (length ?av)
                   \<mapsto> toUpperCase uc [w ! (?av ! randomIndex u (length ?av))]))\<rparr>)"
      by (simp add: patternPeekEffect_def Let_def)
    ultimately show ?thesis by blast
  qed
qed

lemma catalog_effect_merges:
  assumes "crd \<in> set HINT_CARDS" and "effect crd uc w ri input arr0 = Inr r"
  shows "mergesClue ri r"
proof -
  from assms(1) consider
      "effect crd = lastLetterEffect" | "effect crd = wordLengthEffect"
    | "effect crd = vowelCountEffect" | "effect crd = firstLetterEffect"
    | "effect crd = containsLetterEffect" | "effect crd = randomLetterEffect"
    | "effect crd = patternPeekEffect" | "effect crd = doubleTroubleEffect"
    by (auto simp: HINT_CARDS_def)
  then show ?thesis
  proof cases
    case 1
    with assms(2) show ?thesis
      by (auto simp: lastLetterEffect_def mergesClue_lastLetter split: if_splits)
  next
    case 2
    with assms(2) show ?thesis
      by (auto simp: wordLengthEffect_def mergesClue_length)
  next
    case 3
    with assms(2) show ?thesis
      by (auto simp: vowelCountEffect_def mergesClue_vowelCount)
  next
    case 4
    with assms(2) show ?thesis
      by (auto simp: firstLetterEffect_def mergesClue_firstLetter split: list.splits)
  next
    case 5
    with assms(2) show ?thesis
      by (auto simp: containsLetterEffect_def Let_def mergesClue_contains mergesClue_same
          split: if_splits)
  next
    case 6
    with assms(2) randomLetterEffect_cases [of uc w ri input arr0] show ?thesis
      by (auto simp: mergesClue_known mergesClue_same)
  next
    case 7
    with assms(2) patternPeekEffect_cases [of uc w ri input arr0] show ?thesis
      by (auto simp: mergesClue_pattern mergesClue_same)
  next
    case 8
    with assms(2) show ?thesis
      by (auto simp: doubleTroubleEffect_def Let_def mergesClue_contains)
  qed
qed

section \<open>Playing a hint card\<close>

text \<open>
  Claim C1. In a guessing phase with both secret words given, playing a card of the catalog
  that passes the input check adds the card's cost to the score of the owner of the secret
  (the opponent of the player who acts) and leaves the acting player's score as it was; the
  acting player's revealed record becomes the output of the card's effect, which merges one
  clue into the record the player had; the hint log gains the one entry of player, card
  name and cost at its end; and the phase becomes the other player's pass-through phase,
  or \<open>ENDGAME\<close> when both solved flags are set.
\<close>

theorem playHintCard_spec:
  assumes ph: "guessPhase (phase (gameState a))"
      and s1: "secret (p1 (gameState a)) = Some s1"
      and s2: "secret (p2 (gameState a)) = Some s2"
      and w1: "word s1 \<noteq> []" and w2: "word s2 \<noteq> []"
      and crd: "crd \<in> set HINT_CARDS"
      and inp: "\<not> (requiresInput crd \<and> trim (cardInput a) = [])"
  shows "\<exists>a' r. playHintCard uc arr0 crd a = Inr a'
     \<and> (phase (gameState a) = GUESS_P1 \<longrightarrow>
          effect crd uc (word s2) (revealed (public (p1 (gameState a)))) (cardInput a) arr0 = Inr r
        \<and> mergesClue (revealed (public (p1 (gameState a)))) r
        \<and> score (public (p2 (gameState a'))) = score (public (p2 (gameState a))) + cost crd
        \<and> score (public (p1 (gameState a'))) = score (public (p1 (gameState a)))
        \<and> revealed (public (p1 (gameState a'))) = r
        \<and> hintLog (gameState a') = hintLog (gameState a) @
             [\<lparr>HintLogEntry.player = ''Player 1'', card = name crd, cost = cost crd\<rparr>]
        \<and> phase (gameState a') =
             (if guessSolved (public (p1 (gameState a))) \<and> guessSolved (public (p2 (gameState a)))
              then ENDGAME else PASS_TO_GUESS_P2))
     \<and> (phase (gameState a) = GUESS_P2 \<longrightarrow>
          effect crd uc (word s1) (revealed (public (p2 (gameState a)))) (cardInput a) arr0 = Inr r
        \<and> mergesClue (revealed (public (p2 (gameState a)))) r
        \<and> score (public (p1 (gameState a'))) = score (public (p1 (gameState a))) + cost crd
        \<and> score (public (p2 (gameState a'))) = score (public (p2 (gameState a)))
        \<and> revealed (public (p2 (gameState a'))) = r
        \<and> hintLog (gameState a') = hintLog (gameState a) @
             [\<lparr>HintLogEntry.player = ''Player 2'', card = name crd, cost = cost crd\<rparr>]
        \<and> phase (gameState a') =
             (if guessSolved (public (p1 (gameState a))) \<and> guessSolved (public (p2 (gameState a)))
              then ENDGAME else PASS_TO_GUESS_P1))"
proof (cases "phase (gameState a) = GUESS_P1")
  case True
  from catalog_effect_total [OF crd w2]
  obtain r where r: "effect crd uc (word s2) (revealed (public (p1 (gameState a)))) (cardInput a) arr0 = Inr r"
    by blast
  from catalog_effect_merges [OF crd r]
  have m: "mergesClue (revealed (public (p1 (gameState a)))) r" .
  show ?thesis
    using True s2 inp r m
    by (simp add: playHintCard_def Let_def playerName_def)
next
  case False
  with ph have p2: "phase (gameState a) = GUESS_P2" by (simp add: guessPhase_def)
  from catalog_effect_total [OF crd w1]
  obtain r where r: "effect crd uc (word s1) (revealed (public (p2 (gameState a)))) (cardInput a) arr0 = Inr r"
    by blast
  from catalog_effect_merges [OF crd r]
  have m: "mergesClue (revealed (public (p2 (gameState a)))) r" .
  show ?thesis
    using p2 s1 inp r m
    by (simp add: playHintCard_def Let_def playerName_def)
qed

lemma wordLength_in_catalog: "HINT_CARDS ! 1 \<in> set HINT_CARDS"
  by (simp add: HINT_CARDS_def)

lemma guessingApp_phase: "phase (gameState (guessingApp ph w1 w2)) = ph"
  by (simp add: guessingApp_def)

lemma guessingApp_p1: "secret (p1 (gameState (guessingApp ph w1 w2))) = Some \<lparr>letters = [], word = w1\<rparr>"
  by (simp add: guessingApp_def)

lemma guessingApp_p2: "secret (p2 (gameState (guessingApp ph w1 w2))) = Some \<lparr>letters = [], word = w2\<rparr>"
  by (simp add: guessingApp_def)

lemma js_nonempty: "js ''dog'' \<noteq> []" "js ''hello'' \<noteq> []"
  by (simp_all add: js_def)

lemma cluedApp_phase: "phase (gameState cluedApp) = GUESS_P1"
  by (simp add: cluedApp_def guessingApp_def)

lemma cluedApp_p1: "secret (p1 (gameState cluedApp)) = Some \<lparr>letters = [], word = js ''dog''\<rparr>"
  by (simp add: cluedApp_def guessingApp_def)

lemma cluedApp_p2: "secret (p2 (gameState cluedApp)) = Some \<lparr>letters = [], word = js ''hello''\<rparr>"
  by (simp add: cluedApp_def guessingApp_def)

theorem playHintCard_spec_witness:
  "guessPhase (phase (gameState cluedApp))
 \<and> secret (p1 (gameState cluedApp)) = Some \<lparr>letters = [], word = js ''dog''\<rparr>
 \<and> secret (p2 (gameState cluedApp)) = Some \<lparr>letters = [], word = js ''hello''\<rparr>
 \<and> HINT_CARDS ! 1 \<in> set HINT_CARDS
 \<and> \<not> (requiresInput (HINT_CARDS ! 1) \<and> trim (cardInput cluedApp) = [])
 \<and> (\<exists>a'. playHintCard noTable 0 (HINT_CARDS ! 1) cluedApp = Inr a'
        \<and> score (public (p2 (gameState a'))) = 3
        \<and> score (public (p1 (gameState a'))) = 0
        \<and> length_r (revealed (public (p1 (gameState a')))) = Some 5
        \<and> knownLetters (revealed (public (p1 (gameState a'))))
             = Some [js ''O'', js ''L'', js ''E'', js ''H'']
        \<and> mergesClue helloRevealed (revealed (public (p1 (gameState a'))))
        \<and> hintLog (gameState a') =
             [\<lparr>HintLogEntry.player = ''Player 1'', card = ''Word Length'', cost = 3\<rparr>]
        \<and> phase (gameState a') = PASS_TO_GUESS_P2)"
proof -
  have ph: "guessPhase (phase (gameState cluedApp))"
    by (simp add: cluedApp_phase guessPhase_def)
  have inp: "\<not> (requiresInput (HINT_CARDS ! 1) \<and> trim (cardInput cluedApp) = [])"
    by (simp add: HINT_CARDS_def)
  have old: "revealed (public (p1 (gameState cluedApp))) = helloRevealed"
    by (simp add: cluedApp_def guessingApp_def)
  from playHintCard_spec [OF ph cluedApp_p1 cluedApp_p2 _ _ wordLength_in_catalog inp,
      of noTable 0]
  obtain a' r where "playHintCard noTable 0 (HINT_CARDS ! 1) cluedApp = Inr a'"
    and "effect (HINT_CARDS ! 1) noTable (js ''hello'') (revealed (public (p1 (gameState cluedApp))))
           (cardInput cluedApp) 0 = Inr r"
    and "mergesClue (revealed (public (p1 (gameState cluedApp)))) r"
    and "score (public (p2 (gameState a'))) = score (public (p2 (gameState cluedApp))) + cost (HINT_CARDS ! 1)"
    and "score (public (p1 (gameState a'))) = score (public (p1 (gameState cluedApp)))"
    and "revealed (public (p1 (gameState a'))) = r"
    and "hintLog (gameState a') = hintLog (gameState cluedApp) @
           [\<lparr>HintLogEntry.player = ''Player 1'', card = name (HINT_CARDS ! 1),
             cost = cost (HINT_CARDS ! 1)\<rparr>]"
    and "phase (gameState a') =
           (if guessSolved (public (p1 (gameState cluedApp)))
               \<and> guessSolved (public (p2 (gameState cluedApp)))
            then ENDGAME else PASS_TO_GUESS_P2)"
    by (auto simp: cluedApp_phase js_nonempty)
  then have "playHintCard noTable 0 (HINT_CARDS ! 1) cluedApp = Inr a'
        \<and> score (public (p2 (gameState a'))) = 3
        \<and> score (public (p1 (gameState a'))) = 0
        \<and> length_r (revealed (public (p1 (gameState a')))) = Some 5
        \<and> knownLetters (revealed (public (p1 (gameState a'))))
             = Some [js ''O'', js ''L'', js ''E'', js ''H'']
        \<and> mergesClue helloRevealed (revealed (public (p1 (gameState a'))))
        \<and> hintLog (gameState a') =
             [\<lparr>HintLogEntry.player = ''Player 1'', card = ''Word Length'', cost = 3\<rparr>]
        \<and> phase (gameState a') = PASS_TO_GUESS_P2"
    by (auto simp: cluedApp_def guessingApp_def initialApp_def initialGameState_def freshPublic_def
        HINT_CARDS_def wordLengthEffect_def helloRevealed_def length_js)
  then show ?thesis
    using ph inp wordLength_in_catalog cluedApp_p1 cluedApp_p2 by blast
qed

section \<open>Submitting a guess\<close>

text \<open>
  Claim C2. In a guessing phase with both secret words given, a guess that is not blank
  and that the comparison judges wrong adds exactly 2 to the score of the guesser's
  opponent and nothing to the guesser's, appends the one entry of player, guessed word and
  penalty to the wrong-guess log, and moves to the other player's pass-through phase
  whatever the solved flags are: the phase is never \<open>ENDGAME\<close>.
\<close>

theorem wrongGuess_spec:
  assumes ph: "guessPhase (phase (gameState a))"
      and s1: "secret (p1 (gameState a)) = Some s1"
      and s2: "secret (p2 (gameState a)) = Some s2"
      and nonblank: "trim (guessWord a) \<noteq> []"
      and wrong: "toLowerCase uc (guessWord a) \<noteq> word (if phase (gameState a) = GUESS_P1 then s2 else s1)"
  shows "(phase (gameState a) = GUESS_P1 \<longrightarrow>
          score (public (p2 (gameState (submitGuess uc a)))) = score (public (p2 (gameState a))) + 2
        \<and> score (public (p1 (gameState (submitGuess uc a)))) = score (public (p1 (gameState a)))
        \<and> wrongGuesses (gameState (submitGuess uc a)) = wrongGuesses (gameState a) @
             [\<lparr>WrongGuess.player = ''Player 1'', word = guessWord a, penalty = 2\<rparr>]
        \<and> phase (gameState (submitGuess uc a)) = PASS_TO_GUESS_P2)
     \<and> (phase (gameState a) = GUESS_P2 \<longrightarrow>
          score (public (p1 (gameState (submitGuess uc a)))) = score (public (p1 (gameState a))) + 2
        \<and> score (public (p2 (gameState (submitGuess uc a)))) = score (public (p2 (gameState a)))
        \<and> wrongGuesses (gameState (submitGuess uc a)) = wrongGuesses (gameState a) @
             [\<lparr>WrongGuess.player = ''Player 2'', word = guessWord a, penalty = 2\<rparr>]
        \<and> phase (gameState (submitGuess uc a)) = PASS_TO_GUESS_P1)
     \<and> phase (gameState (submitGuess uc a)) \<noteq> ENDGAME"
  using assms
  by (auto simp: submitGuess_def Let_def playerName_def WRONG_GUESS_PENALTY_def guessPhase_def)

lemma trim_grave: "trim (js ''grave'') = js ''grave''"
  by code_simp

lemma lower_grave: "toLowerCase uc (js ''grave'') = js ''grave''"
  by code_simp

lemma grave_not_brave: "js ''grave'' \<noteq> js ''brave''" "js ''grave'' \<noteq> []"
  by code_simp+

theorem wrongGuess_spec_witness:
  "guessPhase (phase (gameState ((guessingApp GUESS_P1 (js ''dog'') (js ''brave''))\<lparr>guessWord := js ''grave''\<rparr>)))
 \<and> trim (guessWord ((guessingApp GUESS_P1 (js ''dog'') (js ''brave''))\<lparr>guessWord := js ''grave''\<rparr>)) \<noteq> []
 \<and> toLowerCase noTable (guessWord ((guessingApp GUESS_P1 (js ''dog'') (js ''brave''))\<lparr>guessWord := js ''grave''\<rparr>))
      \<noteq> js ''brave''
 \<and> score (public (p2 (gameState (submitGuess noTable
       ((guessingApp GUESS_P1 (js ''dog'') (js ''brave''))\<lparr>guessWord := js ''grave''\<rparr>))))) = 2
 \<and> wrongGuesses (gameState (submitGuess noTable
       ((guessingApp GUESS_P1 (js ''dog'') (js ''brave''))\<lparr>guessWord := js ''grave''\<rparr>))) =
      [\<lparr>WrongGuess.player = ''Player 1'', word = js ''grave'', penalty = 2\<rparr>]
 \<and> phase (gameState (submitGuess noTable
       ((guessingApp GUESS_P1 (js ''dog'') (js ''brave''))\<lparr>guessWord := js ''grave''\<rparr>))) = PASS_TO_GUESS_P2"
proof -
  let ?a = "(guessingApp GUESS_P1 (js ''dog'') (js ''brave''))\<lparr>guessWord := js ''grave''\<rparr>"
  have ph: "guessPhase (phase (gameState ?a))"
    by (simp add: guessingApp_phase guessPhase_def)
  have s1: "secret (p1 (gameState ?a)) = Some \<lparr>letters = [], word = js ''dog''\<rparr>"
    by (simp add: guessingApp_p1)
  have s2: "secret (p2 (gameState ?a)) = Some \<lparr>letters = [], word = js ''brave''\<rparr>"
    by (simp add: guessingApp_p2)
  have nb: "trim (guessWord ?a) \<noteq> []"
    by (simp add: trim_grave grave_not_brave)
  have wr: "toLowerCase noTable (guessWord ?a) \<noteq>
        word (if phase (gameState ?a) = GUESS_P1 then \<lparr>letters = [], word = js ''brave''\<rparr>
              else \<lparr>letters = [], word = js ''dog''\<rparr>)"
    by (simp add: guessingApp_phase lower_grave grave_not_brave)
  from wrongGuess_spec [OF ph s1 s2 nb wr] ph nb show ?thesis
    by (simp add: guessingApp_phase lower_grave grave_not_brave)
       (simp add: guessingApp_def initialApp_def initialGameState_def freshPublic_def)
qed

text \<open>
  Claim C3, as amended. The comparison lower-cases the guess but does not trim it, so the
  guess \<open>cat\<close> followed by a space is judged wrong against the secret \<open>cat\<close>. In a guessing
  phase with both secret words given, a guess that is not blank and whose lower-cased form,
  untrimmed, equals the opponent's secret word sets the guesser's solved flag, leaves the
  other flag and both scores as they were, and moves to \<open>ENDGAME\<close> when the opponent had
  solved already, otherwise to the opponent's pass-through phase.
\<close>

theorem correctGuess_untrimmed:
  assumes ph: "guessPhase (phase (gameState a))"
      and s1: "secret (p1 (gameState a)) = Some s1"
      and s2: "secret (p2 (gameState a)) = Some s2"
      and nonblank: "trim (guessWord a) \<noteq> []"
      and right: "toLowerCase uc (guessWord a) = word (if phase (gameState a) = GUESS_P1 then s2 else s1)"
  shows "(phase (gameState a) = GUESS_P1 \<longrightarrow>
          guessSolved (public (p1 (gameState (submitGuess uc a))))
        \<and> guessSolved (public (p2 (gameState (submitGuess uc a)))) = guessSolved (public (p2 (gameState a)))
        \<and> phase (gameState (submitGuess uc a)) =
             (if guessSolved (public (p2 (gameState a))) then ENDGAME else PASS_TO_GUESS_P2))
     \<and> (phase (gameState a) = GUESS_P2 \<longrightarrow>
          guessSolved (public (p2 (gameState (submitGuess uc a))))
        \<and> guessSolved (public (p1 (gameState (submitGuess uc a)))) = guessSolved (public (p1 (gameState a)))
        \<and> phase (gameState (submitGuess uc a)) =
             (if guessSolved (public (p1 (gameState a))) then ENDGAME else PASS_TO_GUESS_P1))
     \<and> score (public (p1 (gameState (submitGuess uc a)))) = score (public (p1 (gameState a)))
     \<and> score (public (p2 (gameState (submitGuess uc a)))) = score (public (p2 (gameState a)))"
  using assms
  by (auto simp: submitGuess_def Let_def guessPhase_def)

lemma trim_cat: "trim (js ''cat'') = js ''cat''"
  by code_simp

lemma lower_cat: "toLowerCase uc (js ''cat'') = js ''cat''"
  by code_simp

lemma cat_nonempty: "js ''cat'' \<noteq> []"
  by (simp add: js_def)

theorem correctGuess_untrimmed_witness:
  "guessPhase (phase (gameState ((guessingApp GUESS_P1 (js ''dog'') (js ''cat''))\<lparr>guessWord := js ''cat''\<rparr>)))
 \<and> trim (guessWord ((guessingApp GUESS_P1 (js ''dog'') (js ''cat''))\<lparr>guessWord := js ''cat''\<rparr>)) \<noteq> []
 \<and> toLowerCase noTable (guessWord ((guessingApp GUESS_P1 (js ''dog'') (js ''cat''))\<lparr>guessWord := js ''cat''\<rparr>))
      = js ''cat''
 \<and> guessSolved (public (p1 (gameState (submitGuess noTable
       ((guessingApp GUESS_P1 (js ''dog'') (js ''cat''))\<lparr>guessWord := js ''cat''\<rparr>)))))
 \<and> score (public (p2 (gameState (submitGuess noTable
       ((guessingApp GUESS_P1 (js ''dog'') (js ''cat''))\<lparr>guessWord := js ''cat''\<rparr>))))) = 0
 \<and> phase (gameState (submitGuess noTable
       ((guessingApp GUESS_P1 (js ''dog'') (js ''cat''))\<lparr>guessWord := js ''cat''\<rparr>))) = PASS_TO_GUESS_P2"
proof -
  let ?a = "(guessingApp GUESS_P1 (js ''dog'') (js ''cat''))\<lparr>guessWord := js ''cat''\<rparr>"
  have ph: "guessPhase (phase (gameState ?a))"
    by (simp add: guessingApp_phase guessPhase_def)
  have s1: "secret (p1 (gameState ?a)) = Some \<lparr>letters = [], word = js ''dog''\<rparr>"
    by (simp add: guessingApp_p1)
  have s2: "secret (p2 (gameState ?a)) = Some \<lparr>letters = [], word = js ''cat''\<rparr>"
    by (simp add: guessingApp_p2)
  have nb: "trim (guessWord ?a) \<noteq> []"
    by (simp add: trim_cat cat_nonempty)
  have rt: "toLowerCase noTable (guessWord ?a) =
        word (if phase (gameState ?a) = GUESS_P1 then \<lparr>letters = [], word = js ''cat''\<rparr>
              else \<lparr>letters = [], word = js ''dog''\<rparr>)"
    by (simp add: guessingApp_phase lower_cat)
  from correctGuess_untrimmed [OF ph s1 s2 nb rt] ph nb show ?thesis
    by (simp add: guessingApp_phase lower_cat)
       (simp add: guessingApp_def initialApp_def initialGameState_def freshPublic_def)
qed

lemma trim_lower_padded: "trim (toLowerCase uc (js ''cat '')) = js ''cat''"
  by code_simp

lemma trim_padded: "trim (js ''cat '') = js ''cat''"
  by code_simp

lemma lower_padded: "toLowerCase uc (js ''cat '') = js ''cat ''"
  by code_simp

lemma padded_differs: "js ''cat '' \<noteq> js ''cat''"
  by code_simp

text \<open>
  The guess \<open>cat\<close> with a trailing space, lower-cased and trimmed, equals the secret
  \<open>cat\<close>; \<^verbatim>\<open>submitGuess\<close> leaves player 1 unsolved and charges the penalty.
\<close>

theorem trimmed_match_counterexample:
  "phase (gameState paddedGuessApp) = GUESS_P1
 \<and> secret (p2 (gameState paddedGuessApp)) = Some \<lparr>letters = [], word = js ''cat''\<rparr>
 \<and> trim (toLowerCase noTable (guessWord paddedGuessApp)) = js ''cat''
 \<and> \<not> guessSolved (public (p1 (gameState (submitGuess noTable paddedGuessApp))))
 \<and> score (public (p2 (gameState paddedGuessApp))) = 0
 \<and> score (public (p2 (gameState (submitGuess noTable paddedGuessApp)))) = 2"
  by (simp add: paddedGuessApp_def guessingApp_def initialApp_def initialGameState_def
      freshPublic_def submitGuess_def Let_def trim_lower_padded trim_padded lower_padded
      padded_differs cat_nonempty WRONG_GUESS_PENALTY_def)

text \<open>
  In general: a guess that equals the secret word only after trimming is judged wrong, in
  every state of a guessing phase.
\<close>

lemma trimmed_only_is_wrong:
  assumes "guessPhase (phase (gameState a))"
      and "secret (p1 (gameState a)) = Some s1" and "secret (p2 (gameState a)) = Some s2"
      and "trim (guessWord a) \<noteq> []"
      and "trim (toLowerCase uc (guessWord a)) = word (if phase (gameState a) = GUESS_P1 then s2 else s1)"
      and "toLowerCase uc (guessWord a) \<noteq> trim (toLowerCase uc (guessWord a))"
  shows "error (submitGuess uc a) = Some (WrongGuess (guessWord a))"
  using assms
  by (auto simp: submitGuess_def Let_def guessPhase_def)

section \<open>Rejected actions\<close>

text \<open>
  Claim C9. An action rejected with a validation error leaves the game state as it was:
  a setup word that fails validation, a card that requires input played with a blank
  input, a blank guess, and a start while the dictionary is not ready. In each case only
  the error message of the component changes. Blank is what \<^verbatim>\<open>trim\<close> empties, the
  no-break space included.
\<close>

theorem rejected_unchanged:
  "(secret (if phase (gameState a) = SETUP_P1 then p1 (gameState a) else p2 (gameState a)) = Some sec
      \<and> validateWord uc words (setupWord a) (letters sec) = Some e
    \<longrightarrow> confirmSetupWord uc words rnd a = Inr (a\<lparr>error := Some e\<rparr>)
        \<and> gameState (a\<lparr>error := Some e\<rparr>) = gameState a)
 \<and> (requiresInput crd \<and> trim (cardInput a) = []
    \<longrightarrow> (\<exists>a'. playHintCard uc arr0 crd a = Inr a' \<and> gameState a' = gameState a))
 \<and> (trim (guessWord a) = []
    \<longrightarrow> submitGuess uc a = a\<lparr>error := Some EmptyGuess\<rparr>
        \<and> gameState (submitGuess uc a) = gameState a)
 \<and> (\<not> dictionaryReady (gameState a)
    \<longrightarrow> startGame rnd a = a\<lparr>error := Some DictionaryNotReady\<rparr>
        \<and> gameState (startGame rnd a) = gameState a)"
  by (simp add: confirmSetupWord_def playHintCard_def submitGuess_def startGame_def Let_def
      split: option.splits)

lemma not_canBuild_dog: "\<not> canBuild uc (js ''dog'') catInventory"
  by code_simp

lemma validate_dog:
  "validateWord uc (Some {js ''dog''}) (js ''dog'') catInventory = Some CannotBuild"
  by (simp add: validateWord_def MIN_WORD_LENGTH_def not_canBuild_dog length_js)

text \<open>A no-break space, and a space followed by a no-break space, are blank.\<close>

lemma trim_nbsp: "trim (js [CHR 0xA0]) = []"
  by code_simp

lemma trim_space_nbsp: "trim (js [CHR '' '', CHR 0xA0]) = []"
  by code_simp

theorem rejected_unchanged_witness:
  "secret (if phase (gameState setupApp) = SETUP_P1 then p1 (gameState setupApp)
           else p2 (gameState setupApp)) = Some \<lparr>letters = catInventory, word = []\<rparr>
 \<and> validateWord noTable (Some {js ''dog''}) (setupWord setupApp) catInventory = Some CannotBuild
 \<and> confirmSetupWord noTable (Some {js ''dog''}) (\<lambda>_. 0) setupApp
      = Inr (setupApp\<lparr>error := Some CannotBuild\<rparr>)
 \<and> requiresInput (HINT_CARDS ! 4)
 \<and> trim (cardInput ((guessingApp GUESS_P1 (js ''dog'') (js ''cat''))\<lparr>cardInput := js [CHR 0xA0]\<rparr>)) = []
 \<and> (\<exists>a'. playHintCard noTable 0 (HINT_CARDS ! 4)
             ((guessingApp GUESS_P1 (js ''dog'') (js ''cat''))\<lparr>cardInput := js [CHR 0xA0]\<rparr>) = Inr a'
        \<and> gameState a' = gameState (guessingApp GUESS_P1 (js ''dog'') (js ''cat'')))
 \<and> trim (guessWord ((guessingApp GUESS_P1 (js ''dog'') (js ''cat''))
            \<lparr>guessWord := js [CHR '' '', CHR 0xA0]\<rparr>)) = []
 \<and> gameState (submitGuess noTable ((guessingApp GUESS_P1 (js ''dog'') (js ''cat''))
            \<lparr>guessWord := js [CHR '' '', CHR 0xA0]\<rparr>))
      = gameState (guessingApp GUESS_P1 (js ''dog'') (js ''cat''))
 \<and> \<not> dictionaryReady (gameState initialApp)
 \<and> gameState (startGame (\<lambda>_. 0) initialApp) = gameState initialApp"
proof -
  let ?g = "guessingApp GUESS_P1 (js ''dog'') (js ''cat'')"
  have a: "secret (if phase (gameState setupApp) = SETUP_P1 then p1 (gameState setupApp)
                   else p2 (gameState setupApp)) = Some \<lparr>letters = catInventory, word = []\<rparr>"
    by (simp add: setupApp_def)
  have b: "validateWord noTable (Some {js ''dog''}) (setupWord setupApp)
             (letters \<lparr>letters = catInventory, word = []\<rparr>) = Some CannotBuild"
    by (simp add: setupApp_def validate_dog)
  have c: "requiresInput (HINT_CARDS ! 4)"
    by (simp add: HINT_CARDS_def)
  have d: "trim (cardInput (?g\<lparr>cardInput := js [CHR 0xA0]\<rparr>)) = []"
    by (simp add: trim_nbsp)
  have e: "trim (guessWord (?g\<lparr>guessWord := js [CHR '' '', CHR 0xA0]\<rparr>)) = []"
    by (simp add: trim_space_nbsp)
  have f: "\<not> dictionaryReady (gameState initialApp)"
    by (simp add: initialApp_def initialGameState_def)
  show ?thesis
    using rejected_unchanged [of setupApp "\<lparr>letters = catInventory, word = []\<rparr>" noTable
            "Some {js ''dog''}" CannotBuild "\<lambda>_. 0" "HINT_CARDS ! 4" 0]
          rejected_unchanged [of "?g\<lparr>cardInput := js [CHR 0xA0]\<rparr>"
            "\<lparr>letters = catInventory, word = []\<rparr>" noTable "Some {js ''dog''}" CannotBuild
            "\<lambda>_. 0" "HINT_CARDS ! 4" 0]
          rejected_unchanged [of "?g\<lparr>guessWord := js [CHR '' '', CHR 0xA0]\<rparr>"
            "\<lparr>letters = catInventory, word = []\<rparr>" noTable "Some {js ''dog''}" CannotBuild
            "\<lambda>_. 0" "HINT_CARDS ! 4" 0]
          rejected_unchanged [of initialApp "\<lparr>letters = catInventory, word = []\<rparr>" noTable
            "Some {js ''dog''}" CannotBuild "\<lambda>_. 0" "HINT_CARDS ! 4" 0]
          a b c d e f
    by simp
qed

section \<open>The letter pool generator: what every draw yields\<close>

lemma tiles_update: "tiles (AList.update k v al) = tiles al - countOr0 al k + v"
  by (induction al) (auto simp: tiles_def countOr0_def)

lemma pickLetter_None:
  "pickLetter rand pool = None \<Longrightarrow> pool \<noteq> [] \<Longrightarrow> of_int (tiles pool) < rand"
proof (induction rand pool rule: pickLetter.induct)
  case (1 rand)
  then show ?case by simp
next
  case (2 rand letter weight rest)
  from "2.prems"(1) have gt: "\<not> rand - of_int weight \<le> 0"
    and rec: "pickLetter (rand - of_int weight) rest = None"
    by (auto split: if_splits)
  show ?case
  proof (cases "rest = []")
    case True
    with gt show ?thesis by (simp add: tiles_def)
  next
    case False
    from "2.IH" [OF gt rec False] show ?thesis by (simp add: tiles_def)
  qed
qed

lemma pickLetter_Some: "pickLetter rand pool = Some l \<Longrightarrow> l \<in> fst ` set pool"
  by (induction rand pool rule: pickLetter.induct) (auto split: if_splits)

lemma pickLetter_hits:
  assumes "0 < tiles pool"
  shows "\<exists>l. pickLetter (randomFloat u * of_int (tiles pool)) pool = Some l"
proof (rule ccontr)
  assume "\<not> ?thesis"
  then have none: "pickLetter (randomFloat u * of_int (tiles pool)) pool = None" by simp
  from assms have ne: "pool \<noteq> []" by (auto simp: tiles_def)
  from pickLetter_None [OF none ne]
  have "of_int (tiles pool) < randomFloat u * of_int (tiles pool)" .
  moreover have "randomFloat u * of_int (tiles pool) < of_int (tiles pool)"
    using randomFloat_bounds [of u] assms by simp
  ultimately show False by simp
qed

lemma drawLoop_tiles:
  "int m \<le> tiles pool \<Longrightarrow>
     tiles (fst (drawLoop m rnd pool result k)) = tiles result + int m
   \<and> snd (drawLoop m rnd pool result k) = k + m"
proof (induction m arbitrary: pool result k)
  case 0
  then show ?case by simp
next
  case (Suc m)
  from Suc.prems have pos: "0 < tiles pool" by simp
  then obtain l where l: "pickLetter (randomFloat (rnd k) * of_int (tiles pool)) pool = Some l"
    using pickLetter_hits by blast
  let ?pool = "AList.update l (countOr0 pool l - 1) pool"
  let ?result = "AList.update l (countOr0 result l + 1) result"
  have step: "drawLoop (Suc m) rnd pool result k = drawLoop m rnd ?pool ?result (Suc k)"
    using pos l by (simp add: tiles_def [symmetric] Let_def)
  have "tiles ?pool = tiles pool - 1" by (simp add: tiles_update)
  with Suc.prems have "int m \<le> tiles ?pool" by simp
  from Suc.IH [OF this, of ?result "Suc k"]
  have "tiles (fst (drawLoop m rnd ?pool ?result (Suc k))) = tiles result + int (Suc m)
      \<and> snd (drawLoop m rnd ?pool ?result (Suc k)) = k + Suc m"
    by (simp add: tiles_update)
  then show ?case by (simp only: step)
qed

lemma set_update_subset: "set (AList.update k v al) \<subseteq> insert (k, v) (set al)"
  by (induction al) auto

lemma drawn_nonneg: "drawn ks al \<Longrightarrow> 0 \<le> countOr0 al l"
  by (fastforce simp: drawn_def countOr0_def split: option.splits dest!: map_of_SomeD)

lemma drawn_update:
  assumes "drawn ks al" and "l \<in> ks" and "1 \<le> v"
  shows "drawn ks (AList.update l v al)"
  using assms set_update_subset [of l v al]
  by (auto simp: drawn_def distinct_update dom_update)

lemma drawLoop_drawn:
  "drawn ks result \<Longrightarrow> fst ` set pool \<subseteq> ks \<Longrightarrow> drawn ks (fst (drawLoop m rnd pool result k))"
proof (induction m arbitrary: pool result k)
  case 0
  then show ?case by simp
next
  case (Suc m)
  show ?case
  proof (cases "pickLetter (randomFloat (rnd k) * of_int (sum_list (map snd pool))) pool")
    case None
    with Suc show ?thesis by (simp add: Let_def)
  next
    case (Some l)
    then have lp: "l \<in> fst ` set pool" by (rule pickLetter_Some)
    with Suc.prems have lk: "l \<in> ks" by blast
    have r: "drawn ks (AList.update l (countOr0 result l + 1) result)"
      using drawn_update [OF Suc.prems(1) lk] drawn_nonneg [OF Suc.prems(1), of l] by simp
    have p: "fst ` set (AList.update l (countOr0 pool l - 1) pool) \<subseteq> ks"
      using Suc.prems(2) lk by (simp add: dom_update)
    from Suc.IH [OF r p] Some Suc.prems(1) show ?thesis by (simp add: Let_def)
  qed
qed

lemma countOr0_combine_fold:
  "distinct (map fst cs) \<Longrightarrow>
   countOr0 (fold (\<lambda>(l, n) comb. AList.update l (countOr0 comb l + n) comb) cs acc) c
     = countOr0 acc c + countOr0 cs c"
proof (induction cs arbitrary: acc)
  case Nil
  then show ?case by (simp add: countOr0_def)
next
  case (Cons p cs)
  obtain l n where p: "p = (l, n)" by (cases p)
  from Cons.prems p have notin: "l \<notin> fst ` set cs" and d: "distinct (map fst cs)" by auto
  from notin have "map_of cs l = None" by (simp add: map_of_eq_None_iff)
  then have z: "countOr0 cs l = 0" by (simp add: countOr0_def)
  show ?case
    using z by (simp add: p Cons.IH [OF d] countOr0_update) (simp add: countOr0_def)
qed

lemma countOr0_combine:
  "distinct (map fst cs) \<Longrightarrow> countOr0 (combine vs cs) c = countOr0 vs c + countOr0 cs c"
  by (simp add: combine_def countOr0_combine_fold)

lemma tiles_combine: "tiles (combine vs cs) = tiles vs + tiles cs"
proof -
  have "tiles (fold (\<lambda>(l, n) comb. AList.update l (countOr0 comb l + n) comb) cs acc) = tiles acc + tiles cs" for acc
  proof (induction cs arbitrary: acc)
    case Nil
    then show ?case by (simp add: tiles_def)
  next
    case (Cons p cs)
    obtain l n where "p = (l, n)" by (cases p)
    with Cons.IH show ?case by (simp add: tiles_update) (simp add: tiles_def)
  qed
  then show ?thesis by (simp add: combine_def)
qed

lemma drawn_combine:
  assumes "drawn ks vs" and "drawn ks' cs"
  shows "drawn (ks \<union> ks') (combine vs cs)"
proof -
  have "drawn (ks \<union> ks') acc \<Longrightarrow> (\<forall>(l, n) \<in> set xs. 1 \<le> n \<and> l \<in> ks') \<Longrightarrow>
        drawn (ks \<union> ks') (fold (\<lambda>(l, n) comb. AList.update l (countOr0 comb l + n) comb) xs acc)"
    for xs acc
  proof (induction xs arbitrary: acc)
    case Nil
    then show ?case by simp
  next
    case (Cons p xs)
    obtain l n where p: "p = (l, n)" by (cases p)
    with Cons.prems have n: "1 \<le> n" and l: "l \<in> ks \<union> ks'" by auto
    have "drawn (ks \<union> ks') (AList.update l (countOr0 acc l + n) acc)"
      using drawn_update [OF Cons.prems(1) l] drawn_nonneg [OF Cons.prems(1), of l] n by simp
    with Cons.IH [of "AList.update l (countOr0 acc l + n) acc"] Cons.prems(2)
    show ?case by (simp add: p)
  qed
  moreover from assms(1) have "drawn (ks \<union> ks') vs" by (auto simp: drawn_def)
  moreover from assms(2) have "\<forall>(l, n) \<in> set cs. 1 \<le> n \<and> l \<in> ks'"
    by (fastforce simp: drawn_def)
  ultimately show ?thesis by (simp add: combine_def)
qed

lemma sum_countOr0:
  "distinct (map fst al) \<Longrightarrow> finite A \<Longrightarrow> fst ` set al \<subseteq> A \<Longrightarrow> (\<Sum>l\<in>A. countOr0 al l) = tiles al"
proof (induction al)
  case Nil
  then show ?case by (simp add: countOr0_def tiles_def)
next
  case (Cons p al)
  obtain k v where p: "p = (k, v)" by (cases p)
  from Cons.prems p have notin: "k \<notin> fst ` set al" and d: "distinct (map fst al)"
    and sub: "fst ` set al \<subseteq> A" and kA: "k \<in> A" by auto
  from notin have "map_of al k = None" by (simp add: map_of_eq_None_iff)
  then have z: "countOr0 al k = 0" by (simp add: countOr0_def)
  have "(\<Sum>l\<in>A. countOr0 (p # al) l) = (\<Sum>l\<in>A. (if l = k then v else 0) + countOr0 al l)"
    using z by (intro sum.cong) (auto simp: p countOr0_def)
  also have "\<dots> = v + (\<Sum>l\<in>A. countOr0 al l)"
    using Cons.prems(2) kA by (simp add: sum.distrib)
  finally show ?case
    using Cons.IH [OF d Cons.prems(2) sub] by (simp add: p tiles_def)
qed

lemma length_flattenLetters:
  "(\<forall>(l, n) \<in> set al. 0 \<le> n) \<Longrightarrow> int (length (flattenLetters al)) = tiles al"
  by (induction al) (auto simp: flattenLetters_def tiles_def)

lemma tiles_vowelPool: "tiles vowelPool = 42"
  by code_simp

lemma tiles_consonantPool: "tiles consonantPool = 56"
  by code_simp

lemma keys_vowelPool: "fst ` set vowelPool = set VOWELS"
  by code_simp

lemma keys_consonantPool: "fst ` set consonantPool = set (map fst consonantPool)"
  by simp

lemma pools_disjoint: "set VOWELS \<inter> fst ` set consonantPool = {}"
  by code_simp

lemma drawn_Nil: "drawn ks []"
  by (simp add: drawn_def)

lemma drawn_inventory: "drawn ks al \<Longrightarrow> inventory al"
  by (fastforce simp: drawn_def inventory_def)

lemma draw_parts:
  "drawVowelsAndConsonants rnd =
     \<lparr>vowels = fst (drawLetters rnd 0 vowelPool 4),
      consonants = fst (drawLetters rnd (snd (drawLetters rnd 0 vowelPool 4)) consonantPool 7),
      combined = combine (fst (drawLetters rnd 0 vowelPool 4))
                   (fst (drawLetters rnd (snd (drawLetters rnd 0 vowelPool 4)) consonantPool 7))\<rparr>"
  by (simp add: drawVowelsAndConsonants_def Let_def split_beta)

lemma drawLetters_vowels:
  "tiles (fst (drawLetters rnd k vowelPool 4)) = 4 \<and> drawn (set VOWELS) (fst (drawLetters rnd k vowelPool 4))"
  using drawLoop_tiles [of 4 vowelPool rnd "[]" k]
        drawLoop_drawn [OF drawn_Nil, of vowelPool "set VOWELS" 4 rnd k]
  by (simp add: drawLetters_def tiles_vowelPool keys_vowelPool) (simp add: tiles_def)

lemma drawLetters_consonants:
  "tiles (fst (drawLetters rnd k consonantPool 7)) = 7
 \<and> drawn (fst ` set consonantPool) (fst (drawLetters rnd k consonantPool 7))"
  using drawLoop_tiles [of 7 consonantPool rnd "[]" k]
        drawLoop_drawn [OF drawn_Nil, of consonantPool "fst ` set consonantPool" 7 rnd k]
  by (simp add: drawLetters_def tiles_consonantPool) (simp add: tiles_def)

text \<open>
  What holds of every draw: 4 vowel tiles and 7 consonant tiles, 11 in all, in a record
  with distinct keys and positive counts.
\<close>

lemma draw_counts:
  "tiles (vowels (drawVowelsAndConsonants rnd)) = 4
 \<and> tiles (consonants (drawVowelsAndConsonants rnd)) = 7
 \<and> tiles (combined (drawVowelsAndConsonants rnd)) = 11
 \<and> (\<Sum>l \<in> set VOWELS. countOr0 (combined (drawVowelsAndConsonants rnd)) l) = 4
 \<and> (\<Sum>l \<in> fst ` set consonantPool. countOr0 (combined (drawVowelsAndConsonants rnd)) l) = 7
 \<and> inventory (combined (drawVowelsAndConsonants rnd))
 \<and> length (flattenLetters (combined (drawVowelsAndConsonants rnd))) = 11"
proof -
  let ?vs = "fst (drawLetters rnd 0 vowelPool 4)"
  let ?cs = "fst (drawLetters rnd (snd (drawLetters rnd 0 vowelPool 4)) consonantPool 7)"
  have v: "tiles ?vs = 4" and dv: "drawn (set VOWELS) ?vs"
    using drawLetters_vowels [of rnd 0] by simp_all
  have c: "tiles ?cs = 7" and dc: "drawn (fst ` set consonantPool) ?cs"
    using drawLetters_consonants [of rnd "snd (drawLetters rnd 0 vowelPool 4)"] by simp_all
  have dcs: "distinct (map fst ?cs)" and dvs: "distinct (map fst ?vs)"
    using dc dv by (simp_all add: drawn_def)
  have kv: "fst ` set ?vs \<subseteq> set VOWELS" and kc: "fst ` set ?cs \<subseteq> fst ` set consonantPool"
    using dc dv by (simp_all add: drawn_def)
  have t: "tiles (combine ?vs ?cs) = 11"
    by (simp add: tiles_combine v c)
  have comb: "drawn (set VOWELS \<union> fst ` set consonantPool) (combine ?vs ?cs)"
    by (rule drawn_combine [OF dv dc])
  have "(\<Sum>l \<in> set VOWELS. countOr0 (combine ?vs ?cs) l)
          = (\<Sum>l \<in> set VOWELS. countOr0 ?vs l) + (\<Sum>l \<in> set VOWELS. countOr0 ?cs l)"
    by (simp add: countOr0_combine [OF dcs] sum.distrib)
  moreover have "(\<Sum>l \<in> set VOWELS. countOr0 ?cs l) = 0"
    using kc pools_disjoint by (intro sum.neutral ballI countOr0_outside) blast
  moreover have "(\<Sum>l \<in> set VOWELS. countOr0 ?vs l) = tiles ?vs"
    by (rule sum_countOr0 [OF dvs _ kv]) simp
  ultimately have sv: "(\<Sum>l \<in> set VOWELS. countOr0 (combine ?vs ?cs) l) = 4"
    by (simp add: v)
  have "(\<Sum>l \<in> fst ` set consonantPool. countOr0 (combine ?vs ?cs) l)
          = (\<Sum>l \<in> fst ` set consonantPool. countOr0 ?vs l)
            + (\<Sum>l \<in> fst ` set consonantPool. countOr0 ?cs l)"
    by (simp add: countOr0_combine [OF dcs] sum.distrib)
  moreover have "(\<Sum>l \<in> fst ` set consonantPool. countOr0 ?vs l) = 0"
    using kv pools_disjoint by (intro sum.neutral ballI countOr0_outside) blast
  moreover have "(\<Sum>l \<in> fst ` set consonantPool. countOr0 ?cs l) = tiles ?cs"
    by (rule sum_countOr0 [OF dcs _ kc]) simp
  ultimately have sc: "(\<Sum>l \<in> fst ` set consonantPool. countOr0 (combine ?vs ?cs) l) = 7"
    by (simp add: c)
  have inv: "inventory (combine ?vs ?cs)"
    by (rule drawn_inventory [OF comb])
  then have "int (length (flattenLetters (combine ?vs ?cs))) = tiles (combine ?vs ?cs)"
    by (intro length_flattenLetters) (simp add: inventory_def)
  with t have len: "length (flattenLetters (combine ?vs ?cs)) = 11" by simp
  show ?thesis
    by (simp only: draw_parts Draw.simps v c t sv sc inv len simp_thms)
qed

text \<open>
  Claim C6. The draw does yield 11 tiles, 4 vowels and 7 consonants, for every random
  sequence (\<open>draw_counts\<close>). The bound by the frequency table fails: the inner loop
  selects on \<^verbatim>\<open>rand <= 0\<close>, so a random value of exactly 0 selects the first letter of the
  pool even when its remaining count is 0. With every random value 0 the consonant draw
  takes \<open>B\<close> three times, and the table has two.
\<close>

theorem draw_exceeds_table:
  "countOr0 (combined (drawVowelsAndConsonants (\<lambda>_. 0))) (CHR ''B'') = 3
 \<and> countOr0 SCRABBLE_COUNTS (CHR ''B'') = 2"
  by code_simp

section \<open>Setup keeps the inventories\<close>

text \<open>
  Claim C10. Through a setup (start, player 1 confirms a valid word, player 2 confirms a
  valid word) nothing is deducted from an inventory: after each confirmation the player's
  \<^verbatim>\<open>secret.letters\<close> is the record drawn for that player, and the swap record gives player 1
  the record drawn for player 2 and player 2 the record drawn for player 1, each of 11
  tiles.
\<close>

theorem setup_keeps_inventories:
  assumes ready: "dictionaryReady (gameState a0)"
      and v1: "validateWord uc words w1 (combined (drawVowelsAndConsonants rnd1)) = None"
      and v2: "validateWord uc words w2 (combined (drawVowelsAndConsonants rnd2)) = None"
  shows "\<exists>a2 a3.
      confirmSetupWord uc words rnd2 ((startGame rnd1 a0)\<lparr>setupWord := w1\<rparr>) = Inr a2
    \<and> confirmSetupWord uc words rnd3 (a2\<lparr>setupWord := w2\<rparr>) = Inr a3
    \<and> secret (p1 (gameState a2)) =
        Some \<lparr>letters = combined (drawVowelsAndConsonants rnd1), word = toLowerCase uc w1\<rparr>
    \<and> secret (p1 (gameState a3)) = secret (p1 (gameState a2))
    \<and> secret (p2 (gameState a3)) =
        Some \<lparr>letters = combined (drawVowelsAndConsonants rnd2), word = toLowerCase uc w2\<rparr>
    \<and> swap (gameState a3) =
        Some \<lparr>p1Gets = combined (drawVowelsAndConsonants rnd2),
              p2Gets = combined (drawVowelsAndConsonants rnd1)\<rparr>
    \<and> length (flattenLetters (combined (drawVowelsAndConsonants rnd1))) = 11
    \<and> length (flattenLetters (combined (drawVowelsAndConsonants rnd2))) = 11"
  using assms draw_counts [of rnd1] draw_counts [of rnd2]
  by (simp add: startGame_def confirmSetupWord_def Let_def)

lemma draw_zero:
  "combined (drawVowelsAndConsonants (\<lambda>_. 0))
     = [(CHR ''A'', 4), (CHR ''B'', 3), (CHR ''C'', 2), (CHR ''D'', 2)]"
  by code_simp

lemma vowelPool_eq:
  "vowelPool = [(CHR ''A'', 9), (CHR ''E'', 12), (CHR ''I'', 9), (CHR ''O'', 8), (CHR ''U'', 4)]"
  by code_simp

lemma consonantPool_eq:
  "consonantPool =
    [(CHR ''B'', 2), (CHR ''C'', 2), (CHR ''D'', 4), (CHR ''F'', 2), (CHR ''G'', 3),
     (CHR ''H'', 2), (CHR ''J'', 1), (CHR ''K'', 1), (CHR ''L'', 4), (CHR ''M'', 2),
     (CHR ''N'', 6), (CHR ''P'', 2), (CHR ''Q'', 1), (CHR ''R'', 6), (CHR ''S'', 4),
     (CHR ''T'', 6), (CHR ''V'', 2), (CHR ''W'', 2), (CHR ''X'', 1), (CHR ''Y'', 2),
     (CHR ''Z'', 1)]"
  by code_simp

lemma randomFloat_half: "randomFloat 2147483648 = 1 / 2"
  by (simp add: randomFloat_def)

lemma draw_half:
  "combined (drawVowelsAndConsonants (\<lambda>_. 2147483648))
     = [(CHR ''E'', 2), (CHR ''I'', 2), (CHR ''N'', 5), (CHR ''P'', 2)]"
  by (simp add: drawVowelsAndConsonants_def drawLetters_def vowelPool_eq consonantPool_eq
      eval_nat_numeral randomFloat_half countOr0_def combine_def Let_def)

lemma canBuild_cab:
  "canBuild uc (js ''cab'') [(CHR ''A'', 4), (CHR ''B'', 3), (CHR ''C'', 2), (CHR ''D'', 2)]"
  by code_simp

lemma canBuild_pine:
  "canBuild uc (js ''pine'') [(CHR ''E'', 2), (CHR ''I'', 2), (CHR ''N'', 5), (CHR ''P'', 2)]"
  by code_simp

lemma trim_lower_cab: "trim (toLowerCase uc (js ''cab'')) = js ''cab''"
  by code_simp

lemma trim_lower_pine: "trim (toLowerCase uc (js ''pine'')) = js ''pine''"
  by code_simp

lemma validate_cab_drawn:
  "validateWord uc (Some {js ''cab'', js ''pine''}) (js ''cab'')
     [(CHR ''A'', 4), (CHR ''B'', 3), (CHR ''C'', 2), (CHR ''D'', 2)] = None"
  by (simp add: validateWord_def MIN_WORD_LENGTH_def isValidWord_def canBuild_cab
      trim_lower_cab length_js)

lemma validate_pine_drawn:
  "validateWord uc (Some {js ''cab'', js ''pine''}) (js ''pine'')
     [(CHR ''E'', 2), (CHR ''I'', 2), (CHR ''N'', 5), (CHR ''P'', 2)] = None"
  by (simp add: validateWord_def MIN_WORD_LENGTH_def isValidWord_def canBuild_pine
      trim_lower_pine length_js)

lemma validate_cab:
  "validateWord uc (Some {js ''cab'', js ''pine''}) (js ''cab'')
     (combined (drawVowelsAndConsonants (\<lambda>_. 0))) = None"
  by (simp only: draw_zero validate_cab_drawn)

lemma validate_pine:
  "validateWord uc (Some {js ''cab'', js ''pine''}) (js ''pine'')
     (combined (drawVowelsAndConsonants (\<lambda>_. 2147483648))) = None"
  by (simp only: draw_half validate_pine_drawn)

lemma loaded_ready: "dictionaryReady (gameState (dictionaryLoaded initialApp))"
  by (simp add: dictionaryLoaded_def)

theorem setup_keeps_inventories_witness:
  "dictionaryReady (gameState (dictionaryLoaded initialApp))
 \<and> validateWord noTable (Some {js ''cab'', js ''pine''}) (js ''cab'')
      (combined (drawVowelsAndConsonants (\<lambda>_. 0))) = None
 \<and> validateWord noTable (Some {js ''cab'', js ''pine''}) (js ''pine'')
      (combined (drawVowelsAndConsonants (\<lambda>_. 2147483648))) = None
 \<and> (\<exists>a2 a3.
      confirmSetupWord noTable (Some {js ''cab'', js ''pine''}) (\<lambda>_. 2147483648)
        ((startGame (\<lambda>_. 0) (dictionaryLoaded initialApp))\<lparr>setupWord := js ''cab''\<rparr>) = Inr a2
    \<and> confirmSetupWord noTable (Some {js ''cab'', js ''pine''}) (\<lambda>_. 7)
        (a2\<lparr>setupWord := js ''pine''\<rparr>) = Inr a3
    \<and> swap (gameState a3) =
        Some \<lparr>p1Gets = [(CHR ''E'', 2), (CHR ''I'', 2), (CHR ''N'', 5), (CHR ''P'', 2)],
              p2Gets = [(CHR ''A'', 4), (CHR ''B'', 3), (CHR ''C'', 2), (CHR ''D'', 2)]\<rparr>)"
proof -
  from setup_keeps_inventories [where ?rnd3.0 = "\<lambda>_. 7",
      OF loaded_ready validate_cab [of noTable] validate_pine [of noTable]]
  obtain a2 a3 where
    "confirmSetupWord noTable (Some {js ''cab'', js ''pine''}) (\<lambda>_. 2147483648)
        ((startGame (\<lambda>_. 0) (dictionaryLoaded initialApp))\<lparr>setupWord := js ''cab''\<rparr>) = Inr a2"
    "confirmSetupWord noTable (Some {js ''cab'', js ''pine''}) (\<lambda>_. 7)
        (a2\<lparr>setupWord := js ''pine''\<rparr>) = Inr a3"
    "swap (gameState a3) =
        Some \<lparr>p1Gets = combined (drawVowelsAndConsonants (\<lambda>_. 2147483648)),
              p2Gets = combined (drawVowelsAndConsonants (\<lambda>_. 0))\<rparr>"
    by blast
  then show ?thesis
    using loaded_ready validate_cab [of noTable] validate_pine [of noTable]
    by (simp add: draw_zero draw_half)
qed

section \<open>Scores and solved flags along a game\<close>

lemma noLoss_refl: "noLoss g g"
  by (simp add: noLoss_def)

lemma catalog_cost_nonneg: "crd \<in> set HINT_CARDS \<Longrightarrow> 0 \<le> cost crd"
  by (auto simp: HINT_CARDS_def)

lemma startGame_noLoss:
  "phase (gameState a) = START \<Longrightarrow> setupInvariant a \<Longrightarrow> noLoss (gameState a) (gameState (startGame rnd a))"
  by (simp add: startGame_def noLoss_def setupInvariant_def fresh_def freshPublic_def)

lemma confirmSetupWord_noLoss:
  "setupInvariant a \<Longrightarrow> confirmSetupWord uc words rnd a = Inr a' \<Longrightarrow> noLoss (gameState a) (gameState a')"
  by (auto simp: confirmSetupWord_def noLoss_def setupInvariant_def fresh_def freshPublic_def Let_def
      split: option.splits if_splits)

lemma proceedToGuess_noLoss: "noLoss (gameState a) (gameState (proceedToGuess a))"
  by (simp add: proceedToGuess_def noLoss_def)

lemma playHintCard_noLoss:
  "0 \<le> cost crd \<Longrightarrow> playHintCard uc arr0 crd a = Inr a' \<Longrightarrow> noLoss (gameState a) (gameState a')"
  by (auto simp: playHintCard_def noLoss_def Let_def split: option.splits if_splits sum.splits)

lemma submitGuess_noLoss: "noLoss (gameState a) (gameState (submitGuess uc a))"
  by (auto simp: submitGuess_def noLoss_def Let_def WRONG_GUESS_PENALTY_def split: option.splits)

lemma perform_noLoss:
  assumes "setupInvariant a" and "offered act a" and "act \<noteq> ResetGame"
      and "perform uc words act a = Inr a'"
  shows "noLoss (gameState a) (gameState a')"
proof (cases act)
  case (StartGame rnd)
  with assms show ?thesis using startGame_noLoss [of a rnd] by auto
next
  case (ConfirmSetupWord rnd)
  with assms show ?thesis using confirmSetupWord_noLoss [of a uc words rnd a'] by auto
next
  case ProceedToGuess
  with assms show ?thesis using proceedToGuess_noLoss [of a] by auto
next
  case (PlayHintCard arr0)
  with assms(2) obtain crd where sel: "selectedCard a = Some crd" by auto
  with assms(1) have "0 \<le> cost crd" by (simp add: setupInvariant_def catalog_cost_nonneg)
  with assms(4) sel PlayHintCard show ?thesis using playHintCard_noLoss [of crd uc arr0 a a'] by simp
next
  case SubmitGuess
  with assms show ?thesis using submitGuess_noLoss [of a uc] by auto
next
  case ResetGame
  with assms show ?thesis by simp
qed (use assms in \<open>auto simp: noLoss_def\<close>)

lemma initial_invariant: "setupInvariant initialApp"
  by (simp add: setupInvariant_def initialApp_def initialGameState_def fresh_def freshPublic_def)

lemma loaded_invariant: "setupInvariant a \<Longrightarrow> setupInvariant (dictionaryLoaded a)"
  by (simp add: setupInvariant_def dictionaryLoaded_def)

lemma startGame_invariant: "setupInvariant a \<Longrightarrow> phase (gameState a) = START \<Longrightarrow> setupInvariant (startGame rnd a)"
  by (simp add: startGame_def setupInvariant_def)

lemma confirmSetupWord_invariant:
  "setupInvariant a \<Longrightarrow> setupPhase (phase (gameState a)) \<Longrightarrow> confirmSetupWord uc words rnd a = Inr a' \<Longrightarrow> setupInvariant a'"
  by (auto simp: confirmSetupWord_def setupInvariant_def setupPhase_def Let_def
      split: option.splits if_splits)

lemma proceedToGuess_invariant:
  "setupInvariant a \<Longrightarrow> passPhase (phase (gameState a)) \<Longrightarrow> setupInvariant (proceedToGuess a)"
  by (auto simp: proceedToGuess_def setupInvariant_def passPhase_def)

lemma playHintCard_invariant:
  "setupInvariant a \<Longrightarrow> guessPhase (phase (gameState a)) \<Longrightarrow> playHintCard uc arr0 crd a = Inr a' \<Longrightarrow> setupInvariant a'"
  by (auto simp: playHintCard_def setupInvariant_def guessPhase_def Let_def
      split: option.splits if_splits sum.splits)

lemma submitGuess_invariant:
  "setupInvariant a \<Longrightarrow> guessPhase (phase (gameState a)) \<Longrightarrow> setupInvariant (submitGuess uc a)"
  by (auto simp: submitGuess_def setupInvariant_def guessPhase_def Let_def
      split: option.splits if_splits)

lemma resetGame_invariant: "setupInvariant a \<Longrightarrow> setupInvariant (resetGame words a)"
  by (simp add: resetGame_def setupInvariant_def initialGameState_def fresh_def freshPublic_def)

lemma perform_invariant:
  assumes "setupInvariant a" and "offered act a" and "perform uc words act a = Inr a'"
  shows "setupInvariant a'"
proof (cases act)
  case (StartGame rnd)
  with assms show ?thesis using startGame_invariant [of a rnd] by auto
next
  case (ConfirmSetupWord rnd)
  with assms show ?thesis using confirmSetupWord_invariant [of a uc words rnd a'] by auto
next
  case ProceedToGuess
  with assms show ?thesis using proceedToGuess_invariant [of a] by auto
next
  case (PlayHintCard arr0)
  with assms(2) obtain crd where sel: "selectedCard a = Some crd" by auto
  with assms PlayHintCard show ?thesis using playHintCard_invariant [of a uc arr0 crd a'] by auto
next
  case SubmitGuess
  with assms show ?thesis using submitGuess_invariant [of a uc] by auto
next
  case ResetGame
  with assms show ?thesis using resetGame_invariant [of a words] by auto
qed (use assms in \<open>auto simp: setupInvariant_def guessPhase_def\<close>)

lemma reachable_invariant: "reachable uc words a \<Longrightarrow> setupInvariant a"
  by (induction rule: reachable.induct)
     (auto intro: initial_invariant loaded_invariant perform_invariant)

text \<open>
  Claim C7. From every state the component can reach, every action its screen offers
  other than the reset (typing, selecting a card, start, confirm setup, proceed, hint play,
  guess submit) leaves each player's score at least as high as before and never clears a
  solved flag.
\<close>

theorem scores_never_decrease:
  assumes "reachable uc words a" and "offered act a" and "act \<noteq> ResetGame"
      and "perform uc words act a = Inr a'"
  shows "score (public (p1 (gameState a))) \<le> score (public (p1 (gameState a')))
       \<and> score (public (p2 (gameState a))) \<le> score (public (p2 (gameState a')))
       \<and> (guessSolved (public (p1 (gameState a))) \<longrightarrow> guessSolved (public (p1 (gameState a'))))
       \<and> (guessSolved (public (p2 (gameState a))) \<longrightarrow> guessSolved (public (p2 (gameState a'))))"
  using perform_noLoss [OF reachable_invariant [OF assms(1)] assms(2,3,4)]
  by (simp add: noLoss_def)

lemma run_reachable:
  "reachable uc words a \<Longrightarrow> run uc words acts a = Some a' \<Longrightarrow> reachable uc words a'"
proof (induction acts arbitrary: a)
  case Nil
  then show ?case by simp
next
  case (Cons act acts)
  from Cons.prems(2) obtain b where off: "offered act a" and p: "perform uc words act a = Inr b"
    and r: "run uc words acts b = Some a'"
    by (auto split: if_splits sum.splits)
  from reachable.step [OF Cons.prems(1) off p] have "reachable uc words b" .
  from Cons.IH [OF this r] show ?case .
qed

lemma lower_Cab: "toLowerCase uc (js ''Cab'') = js ''cab''"
  by code_simp

lemma lower_cab: "toLowerCase uc (js ''cab'') = js ''cab''"
  by code_simp

lemma wordLength_in_catalog_Suc: "HINT_CARDS ! Suc 0 \<in> set HINT_CARDS"
  by (simp add: HINT_CARDS_def)

lemma lower_pine: "toLowerCase uc (js ''pine'') = js ''pine''"
  by code_simp

lemma trim_cab: "trim (js ''cab'') = js ''cab''"
  by code_simp

lemma trim_pine: "trim (js ''pine'') = js ''pine''"
  by code_simp

lemma cab_pine_nonempty: "js ''cab'' \<noteq> []" "js ''pine'' \<noteq> []"
  by (simp_all add: js_def)

lemma loaded_reachable:
  "reachable uc (Some {js ''cab'', js ''pine''}) (dictionaryLoaded initialApp)"
  by (rule reachable.loaded) (rule reachable.init)

lemma midGame_run:
  "run uc (Some {js ''cab'', js ''pine''})
     [StartGame (\<lambda>_. 0), TypeSetupWord (js ''Cab''), ConfirmSetupWord (\<lambda>_. 2147483648),
      TypeSetupWord (js ''pine''), ConfirmSetupWord (\<lambda>_. 0), ProceedToGuess,
      SelectCard (HINT_CARDS ! 1)]
     (dictionaryLoaded initialApp) = Some midGame"
  by (simp add: dictionaryLoaded_def initialApp_def initialGameState_def startGame_def
      confirmSetupWord_def proceedToGuess_def setupPhase_def passPhase_def guessPhase_def
      draw_zero draw_half lower_Cab lower_cab lower_pine wordLength_in_catalog_Suc trim_cab
      trim_pine cab_pine_nonempty validate_cab_drawn validate_pine_drawn
      midGame_def Let_def wordLength_in_catalog)

lemma midGame_reachable: "reachable uc (Some {js ''cab'', js ''pine''}) midGame"
  using run_reachable [OF loaded_reachable midGame_run] .

lemma midGame_offers_play: "offered (PlayHintCard 0) midGame"
  by (simp add: midGame_def guessPhase_def)

lemma midGame_play:
  "\<exists>a'. perform uc (Some {js ''cab'', js ''pine''}) (PlayHintCard 0) midGame = Inr a'
        \<and> score (public (p1 (gameState a'))) = 0
        \<and> score (public (p2 (gameState a'))) = 3
        \<and> phase (gameState a') = PASS_TO_GUESS_P2"
  by (simp add: midGame_def playHintCard_def HINT_CARDS_def wordLengthEffect_def Let_def
      freshPublic_def)

theorem scores_never_decrease_witness:
  "reachable noTable (Some {js ''cab'', js ''pine''}) midGame
 \<and> offered (PlayHintCard 0) midGame
 \<and> PlayHintCard 0 \<noteq> ResetGame
 \<and> (\<exists>a'. perform noTable (Some {js ''cab'', js ''pine''}) (PlayHintCard 0) midGame = Inr a'
        \<and> score (public (p2 (gameState midGame))) = 0
        \<and> score (public (p2 (gameState a'))) = 3
        \<and> score (public (p1 (gameState midGame))) \<le> score (public (p1 (gameState a')))
        \<and> score (public (p2 (gameState midGame))) \<le> score (public (p2 (gameState a'))))"
proof -
  from midGame_play [of noTable] obtain a' where
    p: "perform noTable (Some {js ''cab'', js ''pine''}) (PlayHintCard 0) midGame = Inr a'"
    and s: "score (public (p2 (gameState a'))) = 3"
    by blast
  have z: "score (public (p2 (gameState midGame))) = 0"
    by (simp add: midGame_def freshPublic_def)
  have n: "PlayHintCard 0 \<noteq> ResetGame" by simp
  from scores_never_decrease [OF midGame_reachable midGame_offers_play n p]
  show ?thesis
    using midGame_reachable [of noTable] midGame_offers_play p s z by blast
qed

end
